theory Spec2Isabelle
  imports Main "HOL-Library.Log_Nat"
begin

section \<open>JavaScript values and string helpers\<close>

text \<open>
  Addresses and signatures are JavaScript values that are either \<open>null\<close> or a string:
  \<open>None\<close> is \<open>null\<close>. The test \<open>!x\<close> of the source holds for \<open>null\<close> and for the empty
  string. Timestamps are integers, block heights, nonces and difficulties (a count of
  leading zero digits) are natural numbers.

  Amounts are JavaScript numbers. The ledger is written over any type \<open>'n\<close> of numbers
  with \<open>0\<close>, \<open>+\<close>, \<open>-\<close>, \<open><\<close> and \<open>\<le>\<close>, of which nothing is assumed: the
  integers in the examples, and the doubles of the code (type \<open>double\<close> below).
\<close>

definition falsy :: "string option \<Rightarrow> bool" where
  "falsy a = (a = None \<or> a = Some [])"

text \<open>
  \<open>s.repeat(n)\<close>, \<open>s.substring(a, b)\<close> and \<open>s.startsWith(p)\<close>, on natural numbers:
  a negative count or index is outside the model.
\<close>

definition str_repeat :: "string \<Rightarrow> nat \<Rightarrow> string" where
  "str_repeat s n = concat (replicate n s)"

definition substring :: "string \<Rightarrow> nat \<Rightarrow> nat \<Rightarrow> string" where
  "substring s a b = drop (min a b) (take (max a b) s)"

definition startsWith :: "string \<Rightarrow> string \<Rightarrow> bool" where
  "startsWith s p = (take (length p) s = p)"

text \<open>Every exception the modelled code throws, by its \<open>throw\<close> site.\<close>

datatype error =
    NoSenderAndNotReward   \<comment> \<open>addTransaction: no sender and not a reward\<close>
  | NoRecipient            \<comment> \<open>addTransaction: no recipient\<close>
  | AmountNotPositive      \<comment> \<open>addTransaction: amount <= 0\<close>
  | InsufficientBalance    \<comment> \<open>addTransaction: balance < amount\<close>
  | AlreadySigned          \<comment> \<open>signTransaction: a signature is present\<close>
  | NoFromAddress          \<comment> \<open>Transaction.isValid: no sender\<close>
  | NoSignature            \<comment> \<open>Transaction.isValid: no signature\<close>
  | TypeError              \<comment> \<open>a property read on \<open>undefined\<close>\<close>
  | RangeError             \<comment> \<open>\<open>repeat\<close>: the string would be too long\<close>
  | ReferenceError         \<comment> \<open>an identifier that the module does not bind\<close>

text \<open>The four errors of transaction admission (the spec's \<open>InvalidTransaction\<close>).\<close>

fun isInvalidTransaction :: "error \<Rightarrow> bool" where
  "isInvalidTransaction NoSenderAndNotReward = True"
| "isInvalidTransaction NoRecipient = True"
| "isInvalidTransaction AmountNotPositive = True"
| "isInvalidTransaction InsufficientBalance = True"
| "isInvalidTransaction _ = False"

text \<open>
  \<open>s.repeat(n)\<close> as an engine runs it: a string cannot be longer than the engine's
  maximum string length \<open>L\<close> (\<open>2^29 - 24\<close> characters in V8), and \<open>repeat\<close> raises a
  \<open>RangeError\<close> when the result would be. It is used where the count is read from a
  candidate chain, which is data from outside.
\<close>

definition repeatChecked :: "nat \<Rightarrow> string \<Rightarrow> nat \<Rightarrow> error + string" where
  "repeatChecked L s n = (if L < length s * n then Inl RangeError else Inr (str_repeat s n))"

section \<open>Transaction\<close>

record 'n transaction =
  tx_id :: string
  fromAddress :: "string option"
  toAddress :: "string option"
  amount :: 'n
  tx_timestamp :: int
  tx_type :: string
  signature :: "string option"

text \<open>The plain object \<open>Transaction.toJSON\<close> returns and \<open>Transaction.fromJSON\<close> reads.\<close>

record 'n transaction_json =
  json_id :: string
  json_fromAddress :: "string option"
  json_toAddress :: "string option"
  json_amount :: 'n
  json_timestamp :: int
  json_type :: string
  json_signature :: "string option"

text \<open>
  The constructor draws \<open>uuidv4()\<close> and \<open>Date.now()\<close>; both are inputs here
  (\<open>uuid\<close>, \<open>now\<close>). The signature starts as \<open>null\<close>.
\<close>

definition Transaction_new ::
  "string \<Rightarrow> int \<Rightarrow> string option \<Rightarrow> string option \<Rightarrow> 'n \<Rightarrow> string \<Rightarrow> 'n transaction" where
  "Transaction_new uuid now fromA toA amt ty =
     \<lparr>tx_id = uuid, fromAddress = fromA, toAddress = toA, amount = amt,
      tx_timestamp = now, tx_type = ty, signature = None\<rparr>"

definition Transaction_toJSON :: "'n transaction \<Rightarrow> 'n transaction_json" where
  "Transaction_toJSON t =
     \<lparr>json_id = tx_id t, json_fromAddress = fromAddress t, json_toAddress = toAddress t,
      json_amount = amount t, json_timestamp = tx_timestamp t, json_type = tx_type t,
      json_signature = signature t\<rparr>"

definition Transaction_fromJSON :: "string \<Rightarrow> int \<Rightarrow> 'n transaction_json \<Rightarrow> 'n transaction" where
  "Transaction_fromJSON uuid now data =
     (let transaction = Transaction_new uuid now (json_fromAddress data) (json_toAddress data)
                          (json_amount data) (json_type data);
          transaction = transaction\<lparr>tx_id := json_id data\<rparr>;
          transaction = transaction\<lparr>tx_timestamp := json_timestamp data\<rparr>;
          transaction = transaction\<lparr>signature := json_signature data\<rparr>
      in transaction)"

text \<open>
  \<open>Transaction.isValid(publicKey)\<close>. The transaction digest (over every field but the
  signature) and the signature check are the external crypto capability: \<open>txHash\<close> and
  \<open>verifySignature\<close> are parameters.
\<close>

definition Transaction_isValid ::
  "('n transaction \<Rightarrow> string) \<Rightarrow> (string \<Rightarrow> string \<Rightarrow> 'k \<Rightarrow> bool) \<Rightarrow> 'n transaction \<Rightarrow> 'k
     \<Rightarrow> error + bool" where
  "Transaction_isValid txHash verifySignature t publicKey =
     (if tx_type t = ''reward'' then Inr True
      else if falsy (fromAddress t) then Inl NoFromAddress
      else if falsy (signature t) then Inl NoSignature
      else Inr (verifySignature (txHash t) (the (signature t)) publicKey))"

section \<open>Block\<close>

record 'n block =
  index :: nat
  timestamp :: int
  previousHash :: string
  transactions :: "'n transaction list"
  difficulty :: nat
  nonce :: nat
  merkleRoot :: string
  hash :: string

record 'n block_json =
  jb_index :: nat
  jb_timestamp :: int
  jb_previousHash :: string
  jb_hash :: string
  jb_nonce :: nat
  jb_difficulty :: nat
  jb_merkleRoot :: string
  jb_transactions :: "'n transaction_json list"

text \<open>
  \<open>calculateHash\<close> of the crypto utilities digests the JSON text of the object
  \<open>{index, previousHash, timestamp, merkleRoot, nonce, difficulty}\<close> with the SHA-256 of an
  external library. The digest is a parameter \<open>H\<close> on these six fields, in this order.
  The Merkle tree over the transaction ids is an external library as well: \<open>MR\<close>.
\<close>

type_synonym digest = "nat \<Rightarrow> string \<Rightarrow> int \<Rightarrow> string \<Rightarrow> nat \<Rightarrow> nat \<Rightarrow> string"

definition calculateHash :: "digest \<Rightarrow> 'n block \<Rightarrow> string" where
  "calculateHash H b =
     H (index b) (previousHash b) (timestamp b) (merkleRoot b) (nonce b) (difficulty b)"

definition calculateMerkleRoot :: "(string list \<Rightarrow> string) \<Rightarrow> 'n block \<Rightarrow> string" where
  "calculateMerkleRoot MR b =
     (if length (transactions b) = 0 then str_repeat ''0'' 64
      else MR (map tx_id (transactions b)))"

text \<open>The hash the constructor and \<open>mineBlock\<close> force: \<open>'0' + '1'.repeat(63)\<close>.\<close>

definition forcedHash :: string where
  "forcedHash = ''0'' @ str_repeat ''1'' 63"

text \<open>
  The constructor: fields in the order of the source; \<open>merkleRoot\<close> and \<open>hash\<close> are not
  read before they are assigned.
\<close>

definition Block_new ::
  "digest \<Rightarrow> (string list \<Rightarrow> string) \<Rightarrow> int \<Rightarrow> nat \<Rightarrow> string \<Rightarrow> 'n transaction list \<Rightarrow> nat
     \<Rightarrow> 'n block" where
  "Block_new H MR now i ph txs d =
     (let b = \<lparr>index = i, timestamp = now, previousHash = ph, transactions = txs,
               difficulty = d, nonce = 0, merkleRoot = [], hash = []\<rparr>;
          b = b\<lparr>merkleRoot := calculateMerkleRoot MR b\<rparr>;
          b = b\<lparr>hash := calculateHash H b\<rparr>
      in if i = 0 then b\<lparr>hash := forcedHash\<rparr> else b)"

text \<open>
  The search loop of \<open>mineBlock\<close>: the state is the block and \<open>maxAttempts\<close>; it returns
  both, since the code tests \<open>maxAttempts\<close> after the loop.
\<close>

function mineLoop :: "digest \<Rightarrow> string \<Rightarrow> 'n block \<Rightarrow> nat \<Rightarrow> 'n block \<times> nat" where
  "mineLoop H target b maxAttempts =
     (if substring (hash b) 0 (difficulty b) \<noteq> target \<and> maxAttempts > 0
      then (let b = b\<lparr>nonce := nonce b + 1\<rparr>;
                b = b\<lparr>hash := calculateHash H b\<rparr>
            in mineLoop H target b (maxAttempts - 1))
      else (b, maxAttempts))"
  by pat_completeness auto
termination
  by (relation "measure (\<lambda>(H, target, b, maxAttempts). maxAttempts)") auto

declare mineLoop.simps [simp del]

definition mineBlock :: "digest \<Rightarrow> 'n block \<Rightarrow> 'n block" where
  "mineBlock H b =
     (if index b = 0 then b
      else (let target = str_repeat ''0'' (difficulty b);
                (b, maxAttempts) = mineLoop H target b 10000
            in if maxAttempts \<le> 0 then b\<lparr>hash := forcedHash\<rparr> else b))"

definition Block_isValid :: "digest \<Rightarrow> (string list \<Rightarrow> string) \<Rightarrow> 'n block \<Rightarrow> bool" where
  "Block_isValid H MR b =
     (let target = str_repeat ''0'' (difficulty b)
      in if substring (hash b) 0 (difficulty b) \<noteq> target then False
         else if hash b \<noteq> calculateHash H b then False
         else if merkleRoot b \<noteq> calculateMerkleRoot MR b then False
         else True)"

definition Block_toJSON :: "'n block \<Rightarrow> 'n block_json" where
  "Block_toJSON b =
     \<lparr>jb_index = index b, jb_timestamp = timestamp b, jb_previousHash = previousHash b,
      jb_hash = hash b, jb_nonce = nonce b, jb_difficulty = difficulty b,
      jb_merkleRoot = merkleRoot b,
      jb_transactions = map Transaction_toJSON (transactions b)\<rparr>"

definition Block_fromJSON ::
  "digest \<Rightarrow> (string list \<Rightarrow> string) \<Rightarrow> int \<Rightarrow> 'n block_json
     \<Rightarrow> ('n transaction_json \<Rightarrow> 'n transaction) \<Rightarrow> 'n block" where
  "Block_fromJSON H MR now data transactionFromJSON =
     (let b = Block_new H MR now (jb_index data) (jb_previousHash data)
                (map transactionFromJSON (jb_transactions data)) (jb_difficulty data);
          b = b\<lparr>timestamp := jb_timestamp data\<rparr>;
          b = b\<lparr>nonce := jb_nonce data\<rparr>;
          b = b\<lparr>hash := jb_hash data\<rparr>;
          b = b\<lparr>merkleRoot := jb_merkleRoot data\<rparr>
      in b)"

section \<open>Blockchain\<close>

text \<open>The events the chain emits, in the order of emission (newest last).\<close>

datatype 'n event =
    TransactionAdded "'n transaction"
  | BlockMined "'n block"
  | ChainReplaced "'n block list"

record 'n blockchain =
  chain :: "'n block list"
  chainDifficulty :: nat
  pendingTransactions :: "'n transaction list"
  miningReward :: 'n
  emitted :: "'n event list"

definition createGenesisBlock :: "digest \<Rightarrow> (string list \<Rightarrow> string) \<Rightarrow> int \<Rightarrow> 'n block" where
  "createGenesisBlock H MR now = Block_new H MR now 0 (str_repeat ''0'' 64) [] 1"

text \<open>\<open>new Blockchain(difficulty, miningReward)\<close>; the defaults are 2 and 50.\<close>

definition Blockchain_new ::
  "digest \<Rightarrow> (string list \<Rightarrow> string) \<Rightarrow> int \<Rightarrow> nat \<Rightarrow> 'n \<Rightarrow> 'n blockchain" where
  "Blockchain_new H MR now d reward =
     \<lparr>chain = [createGenesisBlock H MR now], chainDifficulty = d,
      pendingTransactions = [], miningReward = reward, emitted = []\<rparr>"

text \<open>\<open>this.chain[this.chain.length - 1]\<close>: \<open>undefined\<close> (\<open>None\<close>) on an empty chain.\<close>

definition getLatestBlock :: "'n blockchain \<Rightarrow> 'n block option" where
  "getLatestBlock bc =
     (if length (chain bc) = 0 then None else Some (chain bc ! (length (chain bc) - 1)))"

text \<open>
  \<open>getBalanceOfAddress\<close>: the two nested loops, the body of the inner one first. The
  address is compared with \<open>===\<close>.
\<close>

definition balanceStep :: "string option \<Rightarrow> ('n::{plus,minus}) transaction \<Rightarrow> 'n \<Rightarrow> 'n" where
  "balanceStep address t balance =
     (let balance = (if toAddress t = address then balance + amount t else balance);
          balance = (if fromAddress t = address then balance - amount t else balance)
      in balance)"

definition getBalanceOfAddress :: "('n::{zero,plus,minus}) blockchain \<Rightarrow> string option \<Rightarrow> 'n" where
  "getBalanceOfAddress bc address =
     fold (\<lambda>b balance. fold (balanceStep address) (transactions b) balance) (chain bc) 0"

text \<open>
  \<open>addTransaction\<close> returns the outcome and the state. A validation error is thrown
  before any mutation. The return value reads the tip after the push and the event, so
  on an empty chain the \<open>TypeError\<close> comes with the mutated state.
\<close>

definition addTransaction ::
  "('n::{zero,plus,minus,ord}) blockchain \<Rightarrow> 'n transaction \<Rightarrow> (error + nat) \<times> 'n blockchain" where
  "addTransaction bc t =
     (if falsy (fromAddress t) \<and> tx_type t \<noteq> ''reward'' then (Inl NoSenderAndNotReward, bc)
      else if falsy (toAddress t) then (Inl NoRecipient, bc)
      else if amount t \<le> 0 then (Inl AmountNotPositive, bc)
      else if \<not> falsy (fromAddress t) \<and> tx_type t \<noteq> ''reward''
              \<and> getBalanceOfAddress bc (fromAddress t) < amount t
        then (Inl InsufficientBalance, bc)
      else (let bc = bc\<lparr>pendingTransactions := pendingTransactions bc @ [t]\<rparr>;
                bc = bc\<lparr>emitted := emitted bc @ [TransactionAdded t]\<rparr>
            in case getLatestBlock bc of
                 None \<Rightarrow> (Inl TypeError, bc)
               | Some latest \<Rightarrow> (Inr (index latest + 1), bc)))"

text \<open>
  \<open>minePendingTransactions\<close>. The reward transaction is pushed first; the new block
  holds the pending array itself, which is then replaced by a fresh empty one.
  \<open>uuid\<close> and \<open>txNow\<close> are what the reward transaction's constructor draws,
  \<open>blockNow\<close> is the clock of the block's constructor.
\<close>

definition minePendingTransactions ::
  "digest \<Rightarrow> (string list \<Rightarrow> string) \<Rightarrow> string \<Rightarrow> int \<Rightarrow> int \<Rightarrow> 'n blockchain \<Rightarrow> string option
     \<Rightarrow> (error + 'n block) \<times> 'n blockchain" where
  "minePendingTransactions H MR uuid txNow blockNow bc miningRewardAddress =
     (let rewardTx = Transaction_new uuid txNow None miningRewardAddress (miningReward bc) ''reward'';
          bc = bc\<lparr>pendingTransactions := pendingTransactions bc @ [rewardTx]\<rparr>
      in case getLatestBlock bc of
           None \<Rightarrow> (Inl TypeError, bc)
         | Some latest \<Rightarrow>
             (let b = Block_new H MR blockNow (index latest + 1) (hash latest)
                        (pendingTransactions bc) (chainDifficulty bc);
                  b = mineBlock H b;
                  bc = bc\<lparr>chain := chain bc @ [b]\<rparr>;
                  bc = bc\<lparr>pendingTransactions := []\<rparr>;
                  bc = bc\<lparr>emitted := emitted bc @ [BlockMined b]\<rparr>
              in (Inr b, bc)))"

text \<open>\<open>isChainValid\<close>: the loop from \<open>i = 1\<close>, with its three checks in order.\<close>

function isChainValidLoop :: "digest \<Rightarrow> 'n block list \<Rightarrow> nat \<Rightarrow> bool" where
  "isChainValidLoop H c i =
     (if i < length c
      then (let currentBlock = c ! i; previousBlock = c ! (i - 1)
            in if hash currentBlock \<noteq> calculateHash H currentBlock then False
               else if previousHash currentBlock \<noteq> hash previousBlock then False
               else if substring (hash currentBlock) 0 (difficulty currentBlock)
                         \<noteq> str_repeat ''0'' (difficulty currentBlock) then False
               else isChainValidLoop H c (i + 1))
      else True)"
  by pat_completeness auto
termination
  by (relation "measure (\<lambda>(H, c, i). length c - i)") auto

declare isChainValidLoop.simps [simp del]

definition isChainValid :: "digest \<Rightarrow> 'n blockchain \<Rightarrow> bool" where
  "isChainValid H bc = isChainValidLoop H (chain bc) 1"

text \<open>
  \<open>isValidChain(chain)\<close>: the genesis check reads \<open>chain[0].index\<close>, a \<open>TypeError\<close> on
  an empty list; then the loop from \<open>i = 1\<close>. Each round evaluates
  \<open>'0'.repeat(block.difficulty)\<close> first, which raises a \<open>RangeError\<close> on a count beyond
  the maximum string length \<open>L\<close>. (A negative count raises a \<open>RangeError\<close> as well, and a
  block without \<open>hash\<close> a \<open>TypeError\<close>; both are outside the types of the model.)
\<close>

function isValidChainLoop :: "nat \<Rightarrow> 'n block list \<Rightarrow> nat \<Rightarrow> error + bool" where
  "isValidChainLoop L c i =
     (if i < length c
      then (let b = c ! i; previousBlock = c ! (i - 1)
            in case repeatChecked L ''0'' (difficulty b) of
                 Inl e \<Rightarrow> Inl e
               | Inr zeros \<Rightarrow>
                   if \<not> startsWith (hash b) zeros then Inr False
                   else if previousHash b \<noteq> hash previousBlock then Inr False
                   else isValidChainLoop L c (i + 1))
      else Inr True)"
  by pat_completeness auto
termination
  by (relation "measure (\<lambda>(L, c, i). length c - i)") auto

declare isValidChainLoop.simps [simp del]

definition isValidChain :: "nat \<Rightarrow> 'n block list \<Rightarrow> error + bool" where
  "isValidChain L c =
     (case c of
        [] \<Rightarrow> Inl TypeError
      | genesisBlock # _ \<Rightarrow>
          if index genesisBlock \<noteq> 0 \<or> \<not> startsWith (hash genesisBlock) ''0'' then Inr False
          else isValidChainLoop L c 1)"

text \<open>\<open>replaceChain\<close> has no handler: an exception of \<open>isValidChain\<close> propagates.\<close>

definition replaceChain ::
  "nat \<Rightarrow> 'n blockchain \<Rightarrow> 'n block list \<Rightarrow> (error + bool) \<times> 'n blockchain" where
  "replaceChain L bc newChain =
     (if length newChain \<le> length (chain bc) then (Inr False, bc)
      else case isValidChain L newChain of
             Inl e \<Rightarrow> (Inl e, bc)
           | Inr valid \<Rightarrow>
               if \<not> valid then (Inr False, bc)
               else (let bc = bc\<lparr>chain := newChain\<rparr>;
                         bc = bc\<lparr>emitted := emitted bc @ [ChainReplaced (chain bc)]\<rparr>
                     in (Inr True, bc)))"

section \<open>Peer-to-peer node\<close>

text \<open>
  Of the node, the chain it holds and the messages it hands to \<open>broadcastMessage\<close>, in
  order.
\<close>

datatype 'n message =
    NEW_TRANSACTION "'n transaction_json"
  | NEW_BLOCK "'n block_json"
  | QUERY_ALL

record 'n p2pNode =
  node_blockchain :: "'n blockchain"
  broadcast :: "'n message list"

definition broadcastTransaction :: "'n p2pNode \<Rightarrow> 'n transaction \<Rightarrow> 'n p2pNode" where
  "broadcastTransaction node t =
     node\<lparr>broadcast := broadcast node @ [NEW_TRANSACTION (Transaction_toJSON t)]\<rparr>"

text \<open>
  The module of the node imports \<open>libp2p\<close>, \<open>libp2p-tcp\<close>, \<open>libp2p-mplex\<close> and
  \<open>events\<close>, and nothing else: the identifier \<open>Transaction\<close>, which
  \<open>handleNewTransaction\<close> evaluates first, is not bound in it (\<open>None\<close>). Evaluating an
  unbound identifier raises a \<open>ReferenceError\<close>.
\<close>

definition p2pNodeModule_Transaction ::
  "(string \<Rightarrow> int \<Rightarrow> 'n transaction_json \<Rightarrow> 'n transaction) option" where
  "p2pNodeModule_Transaction = None"

text \<open>
  The \<open>try\<close> block of \<open>handleNewTransaction\<close>, given what \<open>Transaction.fromJSON\<close>
  resolves to in the module.
\<close>

definition handleNewTransactionTry ::
  "(string \<Rightarrow> int \<Rightarrow> 'n transaction_json \<Rightarrow> 'n transaction) option \<Rightarrow> string \<Rightarrow> int
     \<Rightarrow> 'n p2pNode \<Rightarrow> 'n transaction_json \<Rightarrow> error + 'n p2pNode" where
  "handleNewTransactionTry binding uuid now node transactionData =
     (case binding of
        None \<Rightarrow> Inl ReferenceError
      | Some fromJSON \<Rightarrow>
          (let t = fromJSON uuid now transactionData;
               isExisting = list_ex (\<lambda>tx. tx_id tx = tx_id t)
                              (pendingTransactions (node_blockchain node))
           in if \<not> isExisting
              then (let bc = node_blockchain node;
                        bc = bc\<lparr>pendingTransactions := pendingTransactions bc @ [t]\<rparr>;
                        node = node\<lparr>node_blockchain := bc\<rparr>
                    in Inr (broadcastTransaction node t))
              else Inr node))"

text \<open>\<open>handleNewTransaction\<close>: the \<open>catch\<close> logs the exception and returns.\<close>

definition handleNewTransaction ::
  "string \<Rightarrow> int \<Rightarrow> 'n p2pNode \<Rightarrow> 'n transaction_json \<Rightarrow> 'n p2pNode" where
  "handleNewTransaction uuid now node transactionData =
     (case handleNewTransactionTry p2pNodeModule_Transaction uuid now node transactionData of
        Inl e \<Rightarrow> node
      | Inr node \<Rightarrow> node)"

section \<open>The numbers of the code\<close>

text \<open>
  A JavaScript number is an IEEE 754 double: a finite value, an infinity or \<open>NaN\<close>. A
  finite double is given by its value, a rational \<open>m * 2^e\<close> with \<open>|m| < 2^53\<close> and
  \<open>-1074 \<le> e \<le> 971\<close>; the two zeros are one value, since the ledger neither divides nor
  inspects a sign.
\<close>

datatype double = Fin rat | PInf | NInf | NaN

text \<open>Rounding to the nearest integer, a tie to the even one.\<close>

definition roundTiesToEven :: "rat \<Rightarrow> int" where
  "roundTiesToEven x =
     (let f = \<lfloor>x\<rfloor>; d = x - of_int f
      in if d < 1 / 2 then f
         else if 1 / 2 < d then f + 1
         else if even f then f else f + 1)"

text \<open>
  The double of an exact sum or difference of two doubles \<open>r = p / q\<close> (in lowest terms,
  \<open>q\<close> a power of two up to \<open>2^1074\<close>): when \<open>p\<close> has more than 53 binary digits, the
  \<open>s\<close> digits beyond the first 53 are rounded away, to nearest and a tie to even; a
  result of \<open>2^1024\<close> or more in magnitude is an infinity.
\<close>

definition round64 :: "rat \<Rightarrow> double" where
  "round64 r =
     (let (p, q) = quotient_of r;
          s = int (floorlog 2 (nat \<bar>p\<bar>)) - 53;
          v = (if s \<le> 0 then r
               else of_int (roundTiesToEven (of_int p / 2 ^ nat s)) * 2 ^ nat s / of_int q)
      in if 2 ^ 1024 \<le> v then PInf else if v \<le> - (2 ^ 1024) then NInf else Fin v)"

fun doubleAdd :: "double \<Rightarrow> double \<Rightarrow> double" where
  "doubleAdd NaN _ = NaN"
| "doubleAdd _ NaN = NaN"
| "doubleAdd PInf NInf = NaN"
| "doubleAdd NInf PInf = NaN"
| "doubleAdd PInf _ = PInf"
| "doubleAdd _ PInf = PInf"
| "doubleAdd NInf _ = NInf"
| "doubleAdd _ NInf = NInf"
| "doubleAdd (Fin x) (Fin y) = round64 (x + y)"

fun doubleNeg :: "double \<Rightarrow> double" where
  "doubleNeg (Fin x) = Fin (- x)"
| "doubleNeg PInf = NInf"
| "doubleNeg NInf = PInf"
| "doubleNeg NaN = NaN"

text \<open>\<open><\<close> and \<open><=\<close>: false whenever an operand is \<open>NaN\<close>.\<close>

fun doubleLess :: "double \<Rightarrow> double \<Rightarrow> bool" where
  "doubleLess NaN _ = False"
| "doubleLess _ NaN = False"
| "doubleLess (Fin x) (Fin y) = (x < y)"
| "doubleLess _ NInf = False"
| "doubleLess NInf _ = True"
| "doubleLess PInf _ = False"
| "doubleLess _ PInf = True"

fun doubleLessEq :: "double \<Rightarrow> double \<Rightarrow> bool" where
  "doubleLessEq NaN _ = False"
| "doubleLessEq _ NaN = False"
| "doubleLessEq (Fin x) (Fin y) = (x \<le> y)"
| "doubleLessEq NInf _ = True"
| "doubleLessEq _ NInf = False"
| "doubleLessEq _ PInf = True"
| "doubleLessEq PInf _ = False"

instantiation double :: "{zero, plus, uminus, minus, ord}"
begin

definition zero_double :: double where
  "zero_double = Fin 0"

definition plus_double :: "double \<Rightarrow> double \<Rightarrow> double" where
  "plus_double a b = doubleAdd a b"

definition uminus_double :: "double \<Rightarrow> double" where
  "uminus_double a = doubleNeg a"

definition minus_double :: "double \<Rightarrow> double \<Rightarrow> double" where
  "minus_double a b = doubleAdd a (doubleNeg b)"

definition less_double :: "double \<Rightarrow> double \<Rightarrow> bool" where
  "less_double a b = doubleLess a b"

definition less_eq_double :: "double \<Rightarrow> double \<Rightarrow> bool" where
  "less_eq_double a b = doubleLessEq a b"

instance ..

end

section \<open>Notions of the specification\<close>

text \<open>
  The balance in the specification's words: the sum, over every transaction of every
  block, of \<open>+amount\<close> when the address is the recipient and \<open>-amount\<close> when it is the
  sender. The sum is exact: \<open>val\<close> gives the value of an amount in a group of exact
  numbers (the integers, the rationals). It is compared with \<open>getBalanceOfAddress\<close>
  below.
\<close>

definition balanceSum ::
  "('n \<Rightarrow> 'g::ab_group_add) \<Rightarrow> 'n block list \<Rightarrow> string option \<Rightarrow> 'g" where
  "balanceSum val c address =
     sum_list (map (\<lambda>t. (if toAddress t = address then val (amount t) else 0)
                        - (if fromAddress t = address then val (amount t) else 0))
                   (concat (map transactions c)))"

text \<open>
  The value of a double, and the chains on which the balance of an address stays among
  the integers that doubles count exactly: every amount sent to or from the address is
  an integer, and their magnitudes add up to \<open>2^53\<close> at most.
\<close>

definition valueOf :: "double \<Rightarrow> rat" where
  "valueOf d = (case d of Fin r \<Rightarrow> r | _ \<Rightarrow> 0)"

definition isInteger :: "double \<Rightarrow> bool" where
  "isInteger d = (case d of Fin r \<Rightarrow> r = of_int \<lfloor>r\<rfloor> | _ \<Rightarrow> False)"

definition involves :: "string option \<Rightarrow> 'n transaction \<Rightarrow> bool" where
  "involves address t = (toAddress t = address \<or> fromAddress t = address)"

definition safeIntegers :: "double block list \<Rightarrow> string option \<Rightarrow> bool" where
  "safeIntegers c address =
     (let ts = filter (involves address) (concat (map transactions c))
      in list_all (\<lambda>t. isInteger (amount t)) ts
         \<and> sum_list (map (\<lambda>t. \<bar>valueOf (amount t)\<bar>) ts) \<le> 2 ^ 53)"

text \<open>
  The tampering of the chain validation test:
  \<open>chain[i].transactions[j].amount = a\<close>, nothing else recomputed.
\<close>

definition tamperAmount :: "'n block list \<Rightarrow> nat \<Rightarrow> nat \<Rightarrow> 'n \<Rightarrow> 'n block list" where
  "tamperAmount c i j a =
     c[i := (c ! i)\<lparr>transactions :=
              (transactions (c ! i))[j := (transactions (c ! i) ! j)\<lparr>amount := a\<rparr>]\<rparr>]"

text \<open>
  The chains built by repeated appends: a new chain, then any sequence of transaction
  submissions and of \<open>minePendingTransactions\<close> calls.
\<close>

inductive reachable ::
  "digest \<Rightarrow> (string list \<Rightarrow> string) \<Rightarrow> ('n::{zero,plus,minus,ord}) blockchain \<Rightarrow> bool"
  for H :: digest and MR :: "string list \<Rightarrow> string" where
  created: "reachable H MR (Blockchain_new H MR now d reward)"
| submitted: "reachable H MR bc \<Longrightarrow> reachable H MR (snd (addTransaction bc t))"
| mined: "reachable H MR bc
    \<Longrightarrow> reachable H MR (snd (minePendingTransactions H MR uuid txNow blockNow bc miner))"

section \<open>String helpers\<close>

lemma str_repeat_single: "str_repeat [c] n = replicate n c"
  by (induction n) (simp_all add: str_repeat_def)

lemma substring_0: "substring s 0 n = take n s"
  by (simp add: substring_def)

lemma startsWith_zeros:
  "startsWith h (str_repeat ''0'' d) = (take d h = replicate d CHR ''0'')"
  by (simp add: startsWith_def str_repeat_single)

lemma forcedHash_eq: "forcedHash = CHR ''0'' # replicate 63 CHR ''1''"
  by (simp add: forcedHash_def str_repeat_single)

lemma forcedHash_literal:
  "forcedHash = ''0111111111111111111111111111111111111111111111111111111111111111''"
  by (simp add: forcedHash_def str_repeat_def eval_nat_numeral)

lemma zeros64_literal:
  "str_repeat ''0'' 64 = ''0000000000000000000000000000000000000000000000000000000000000000''"
  by (simp add: str_repeat_def eval_nat_numeral)

section \<open>The block constructor and the genesis block\<close>

lemma Block_new_fields:
  "index (Block_new H MR now i ph txs d) = i"
  "timestamp (Block_new H MR now i ph txs d) = now"
  "previousHash (Block_new H MR now i ph txs d) = ph"
  "transactions (Block_new H MR now i ph txs d) = txs"
  "difficulty (Block_new H MR now i ph txs d) = d"
  "nonce (Block_new H MR now i ph txs d) = 0"
  by (simp_all add: Block_new_def Let_def)

lemma Block_new_hash_genesis: "hash (Block_new H MR now 0 ph txs d) = forcedHash"
  by (simp add: Block_new_def Let_def)

text \<open>
  Claim C9. A new \<open>Blockchain\<close> holds exactly the genesis block, which has index 0, 64
  zeros as \<open>previousHash\<close>, no transaction, difficulty 1 and a hash starting with
  \<open>0\<close>. The constructor of \<open>Block\<close> with index 0 sets the hash to \<open>0\<close> followed by 63
  \<open>1\<close>s whatever the clock, the digest, the transactions and the difficulty are.
\<close>

theorem genesis_block_fixed:
  "chain (Blockchain_new H MR now d r) = [createGenesisBlock H MR now]
   \<and> index (createGenesisBlock H MR now) = 0
   \<and> previousHash (createGenesisBlock H MR now)
       = ''0000000000000000000000000000000000000000000000000000000000000000''
   \<and> transactions (createGenesisBlock H MR now) = []
   \<and> difficulty (createGenesisBlock H MR now) = 1
   \<and> startsWith (hash (createGenesisBlock H MR now)) ''0''
   \<and> hash (createGenesisBlock H MR now)
       = ''0111111111111111111111111111111111111111111111111111111111111111''
   \<and> hash (Block_new H' MR' now' 0 ph txs d')
       = ''0111111111111111111111111111111111111111111111111111111111111111''"
  by (simp add: Blockchain_new_def createGenesisBlock_def Block_new_fields
      Block_new_hash_genesis forcedHash_literal zeros64_literal startsWith_def)

section \<open>Serialisation\<close>

lemma Transaction_roundtrip: "Transaction_fromJSON uuid now (Transaction_toJSON t) = t"
  by (simp add: Transaction_fromJSON_def Transaction_toJSON_def Transaction_new_def Let_def)

lemma Block_roundtrip:
  "Block_fromJSON H MR now (Block_toJSON b) (Transaction_fromJSON uuid txNow) = b"
  by (simp add: Block_fromJSON_def Block_toJSON_def Block_new_def Let_def
      Transaction_roundtrip comp_def)

text \<open>
  Claim C10. \<open>fromJSON\<close> after \<open>toJSON\<close> gives back the transaction, and the block, with
  every field as it was: the values the constructors draw or compute (a new id, the
  clock, the recomputed Merkle root and hash) are all overwritten from the data.
\<close>

theorem toJSON_fromJSON_roundtrip:
  "Transaction_fromJSON uuid now (Transaction_toJSON t) = t
   \<and> Block_fromJSON H MR blockNow (Block_toJSON b) (Transaction_fromJSON uuid now) = b"
  by (simp add: Transaction_roundtrip Block_roundtrip)

section \<open>Proof-of-work search\<close>

lemma mineLoop_keeps:
  "index (fst (mineLoop H target b m)) = index b"
  "timestamp (fst (mineLoop H target b m)) = timestamp b"
  "previousHash (fst (mineLoop H target b m)) = previousHash b"
  "transactions (fst (mineLoop H target b m)) = transactions b"
  "difficulty (fst (mineLoop H target b m)) = difficulty b"
  "merkleRoot (fst (mineLoop H target b m)) = merkleRoot b"
  by (induction H target b m rule: mineLoop.induct; subst mineLoop.simps; simp add: Let_def)+

lemma mineBlock_keeps:
  "index (mineBlock H b) = index b"
  "timestamp (mineBlock H b) = timestamp b"
  "previousHash (mineBlock H b) = previousHash b"
  "transactions (mineBlock H b) = transactions b"
  "difficulty (mineBlock H b) = difficulty b"
  "merkleRoot (mineBlock H b) = merkleRoot b"
  by (simp_all add: mineBlock_def Let_def split_beta mineLoop_keeps)

text \<open>A loop that ends with attempts left has found a hash with the prefix.\<close>

lemma mineLoop_found:
  "0 < snd (mineLoop H target b m)
   \<Longrightarrow> substring (hash (fst (mineLoop H target b m))) 0 (difficulty b) = target"
proof (induction H target b m rule: mineLoop.induct)
  case (1 H target b maxAttempts)
  show ?case
  proof (cases "substring (hash b) 0 (difficulty b) \<noteq> target \<and> maxAttempts > 0")
    case True
    with "1.prems" "1.IH" show ?thesis
      by (subst mineLoop.simps, subst (asm) mineLoop.simps) (simp add: Let_def)
  next
    case False
    with "1.prems" show ?thesis
      by (subst mineLoop.simps, subst (asm) mineLoop.simps) auto
  qed
qed

text \<open>When no digest has the prefix, the loop uses up every attempt.\<close>

lemma mineLoop_exhausts:
  assumes never: "\<forall>i p t m n k. take d (H i p t m n k) \<noteq> target"
    and start: "take d (hash b) \<noteq> target"
    and d: "difficulty b = d"
  shows "snd (mineLoop H target b k) = 0 \<and> nonce (fst (mineLoop H target b k)) = nonce b + k"
  using start d
proof (induction k arbitrary: b)
  case 0
  then show ?case by (subst mineLoop.simps, subst mineLoop.simps) simp
next
  case (Suc k)
  let ?b1 = "b\<lparr>nonce := nonce b + 1\<rparr>"
  let ?b2 = "?b1\<lparr>hash := calculateHash H ?b1\<rparr>"
  have step: "mineLoop H target b (Suc k) = mineLoop H target ?b2 k"
    using Suc.prems by (subst mineLoop.simps) (simp add: substring_0 Let_def)
  have "take d (hash ?b2) \<noteq> target"
    using never by (simp add: calculateHash_def)
  moreover have "difficulty ?b2 = d" using Suc.prems by simp
  ultimately have "snd (mineLoop H target ?b2 k) = 0
      \<and> nonce (fst (mineLoop H target ?b2 k)) = nonce ?b2 + k"
    by (rule Suc.IH)
  with step show ?case by simp
qed

lemma forcedHash_not_two_zeros:
  "2 \<le> d \<Longrightarrow> take d forcedHash \<noteq> replicate d CHR ''0''"
proof
  assume d: "2 \<le> d" and eq: "take d forcedHash = replicate d CHR ''0''"
  from eq have "take d forcedHash ! 1 = replicate d CHR ''0'' ! 1" by simp
  with d show False by (simp add: forcedHash_eq)
qed

lemma forcedHash_one_zero: "d \<le> 1 \<Longrightarrow> take d forcedHash = replicate d CHR ''0''"
  by (cases d) (simp_all add: forcedHash_eq)

text \<open>
  What the search does guarantee: at difficulty 0 or 1 the mined hash always has the
  prefix, since the forced hash starts with one \<open>0\<close>.
\<close>

lemma mineBlock_meets_low_difficulty:
  assumes "index b \<noteq> 0" and "difficulty b \<le> 1"
  shows "substring (hash (mineBlock H b)) 0 (difficulty b) = str_repeat ''0'' (difficulty b)"
proof (cases "0 < snd (mineLoop H (str_repeat ''0'' (difficulty b)) b 10000)")
  case True
  with assms(1) mineLoop_found [OF True] show ?thesis
    by (simp add: mineBlock_def Let_def split_beta)
next
  case False
  with assms show ?thesis
    by (simp add: mineBlock_def Let_def split_beta substring_0 str_repeat_single
        forcedHash_one_zero)
qed

text \<open>
  Claim C1 says that mining at difficulty \<open>d \<ge> 1\<close> always ends with \<open>d\<close> leading
  zeros. The code stops after 10000 attempts and then writes \<open>0\<close> followed by 63
  \<open>1\<close>s, which has one leading zero only. The theorem evaluates the code on a block
  of any index but 0 and any difficulty \<open>d \<ge> 2\<close>, with a digest none of whose values
  has \<open>d\<close> leading zeros (for one, any digest of 64 characters at difficulty 65): the
  mined block has nonce 10000 and the forced hash, fails the prefix test of its own
  difficulty, and with it \<open>Block.isValid\<close>.
\<close>

theorem mineBlock_fabricates_hash:
  assumes "i \<noteq> 0" and "2 \<le> d"
    and "\<forall>i p t m n k. take d (H i p t m n k) \<noteq> replicate d CHR ''0''"
  shows "hash (mineBlock H (Block_new H MR now i ph txs d))
           = ''0111111111111111111111111111111111111111111111111111111111111111''
         \<and> nonce (mineBlock H (Block_new H MR now i ph txs d)) = 10000
         \<and> difficulty (mineBlock H (Block_new H MR now i ph txs d)) = d
         \<and> substring (hash (mineBlock H (Block_new H MR now i ph txs d))) 0 d
             \<noteq> str_repeat ''0'' d
         \<and> \<not> Block_isValid H MR (mineBlock H (Block_new H MR now i ph txs d))"
proof -
  let ?b = "Block_new H MR now i ph txs d"
  let ?target = "str_repeat ''0'' d"
  have start: "take d (hash ?b) \<noteq> ?target"
    using assms(1,3) by (simp add: Block_new_def Let_def calculateHash_def str_repeat_single)
  have never: "\<forall>i p t m n k. take d (H i p t m n k) \<noteq> ?target"
    using assms(3) by (simp add: str_repeat_single)
  have loop: "snd (mineLoop H ?target ?b 10000) = 0
      \<and> nonce (fst (mineLoop H ?target ?b 10000)) = nonce ?b + 10000"
    using never start by (rule mineLoop_exhausts) (simp add: Block_new_fields)
  have mined: "mineBlock H ?b = (fst (mineLoop H ?target ?b 10000))\<lparr>hash := forcedHash\<rparr>"
    using assms(1) loop by (simp add: mineBlock_def Let_def split_beta Block_new_fields)
  show ?thesis
    using assms(2) loop
    by (simp add: mined forcedHash_literal [symmetric] Block_new_fields mineLoop_keeps
        substring_0 str_repeat_single forcedHash_not_two_zeros Block_isValid_def)
qed

theorem mineBlock_fabricates_hash_witness:
  "hash (mineBlock (\<lambda>i p t m n k. ''ffffffffffffffffffffffffffffffffffffffffffffffffffffffffffffffff'')
           (Block_new (\<lambda>i p t m n k. ''ffffffffffffffffffffffffffffffffffffffffffffffffffffffffffffffff'')
              (\<lambda>ids. []) 0 1 ''0111111111111111111111111111111111111111111111111111111111111111''
              ([] :: int transaction list) 2))
     = ''0111111111111111111111111111111111111111111111111111111111111111''
   \<and> substring (hash (mineBlock (\<lambda>i p t m n k. ''ffffffffffffffffffffffffffffffffffffffffffffffffffffffffffffffff'')
           (Block_new (\<lambda>i p t m n k. ''ffffffffffffffffffffffffffffffffffffffffffffffffffffffffffffffff'')
              (\<lambda>ids. []) 0 1 ''0111111111111111111111111111111111111111111111111111111111111111''
              ([] :: int transaction list) 2))) 0 2
     \<noteq> ''00''"
  using mineBlock_fabricates_hash [of 1 2
      "\<lambda>i p t m n k. ''ffffffffffffffffffffffffffffffffffffffffffffffffffffffffffffffff''"
      "\<lambda>ids. []" 0 "''0111111111111111111111111111111111111111111111111111111111111111''"
      "[] :: int transaction list"]
  by (simp add: str_repeat_single numeral_2_eq_2 substring_0)

section \<open>Mining at difficulty 0\<close>

text \<open>With no digit required the loop body never runs: the block keeps the hash of its constructor.\<close>

lemma mineLoop_difficulty_0:
  "difficulty b = 0 \<Longrightarrow> mineLoop H (str_repeat ''0'' 0) b m = (b, m)"
  by (subst mineLoop.simps) (simp add: substring_def str_repeat_def)

lemma mineBlock_difficulty_0: "difficulty b = 0 \<Longrightarrow> mineBlock H b = b"
  by (simp add: mineBlock_def mineLoop_difficulty_0)

lemma Block_new_hash_correct:
  "i \<noteq> 0 \<Longrightarrow> hash (Block_new H MR now i ph txs d)
     = calculateHash H (Block_new H MR now i ph txs d)"
  by (simp add: Block_new_def Let_def calculateHash_def)

section \<open>Submitting and mining on the chain\<close>

lemma getLatestBlock_last:
  "chain bc \<noteq> [] \<Longrightarrow> getLatestBlock bc = Some (last (chain bc))"
  by (simp add: getLatestBlock_def last_conv_nth)

lemma getLatestBlock_empty: "chain bc = [] \<Longrightarrow> getLatestBlock bc = None"
  by (simp add: getLatestBlock_def)

lemma minePendingTransactions_appends:
  assumes "chain bc \<noteq> []"
  shows "minePendingTransactions H MR uuid txNow blockNow bc miner =
     (let b = mineBlock H (Block_new H MR blockNow (index (last (chain bc)) + 1)
                (hash (last (chain bc)))
                (pendingTransactions bc
                   @ [Transaction_new uuid txNow None miner (miningReward bc) ''reward''])
                (chainDifficulty bc))
      in (Inr b, bc\<lparr>chain := chain bc @ [b], pendingTransactions := [],
                     emitted := emitted bc @ [BlockMined b]\<rparr>))"
  using assms
  by (simp add: minePendingTransactions_def Let_def getLatestBlock_def last_conv_nth)

lemma addTransaction_chain: "chain (snd (addTransaction bc t)) = chain bc"
  by (simp add: addTransaction_def Let_def split: option.split)

lemma addTransaction_config:
  "chainDifficulty (snd (addTransaction bc t)) = chainDifficulty bc"
  "miningReward (snd (addTransaction bc t)) = miningReward bc"
  by (simp_all add: addTransaction_def Let_def split: option.split)

lemma addTransaction_reward_pending:
  "\<not> falsy toA \<Longrightarrow> 0 < (amt :: int)
   \<Longrightarrow> pendingTransactions (snd (addTransaction bc (Transaction_new u n None toA amt ''reward'')))
       = pendingTransactions bc @ [Transaction_new u n None toA amt ''reward'']"
  by (simp add: addTransaction_def Let_def Transaction_new_def split: option.split)

section \<open>Chain validation and tampering\<close>

lemma isChainValid_two_blocks:
  "chain bc = [g, b] \<Longrightarrow> isChainValid H bc
     = (hash b = calculateHash H b \<and> previousHash b = hash g
        \<and> substring (hash b) 0 (difficulty b) = str_repeat ''0'' (difficulty b))"
  by (simp add: isChainValid_def isChainValidLoop.simps [of H "[g, b]" "Suc 0"]
      isChainValidLoop.simps [of H "[g, b]" "Suc (Suc 0)"] Let_def)

lemma tamperAmount_length: "length (tamperAmount c i j a) = length c"
  by (simp add: tamperAmount_def)

lemma tamperAmount_nth:
  "tamperAmount c i j a ! k =
     (if k = i \<and> i < length c
      then (c ! i)\<lparr>transactions :=
              (transactions (c ! i))[j := (transactions (c ! i) ! j)\<lparr>amount := a\<rparr>]\<rparr>
      else c ! k)"
  by (cases "i < length c") (simp_all add: tamperAmount_def nth_list_update not_less list_update_beyond)

lemma tamperAmount_header:
  "index (tamperAmount c i j a ! k) = index (c ! k)"
  "timestamp (tamperAmount c i j a ! k) = timestamp (c ! k)"
  "previousHash (tamperAmount c i j a ! k) = previousHash (c ! k)"
  "difficulty (tamperAmount c i j a ! k) = difficulty (c ! k)"
  "nonce (tamperAmount c i j a ! k) = nonce (c ! k)"
  "merkleRoot (tamperAmount c i j a ! k) = merkleRoot (c ! k)"
  "hash (tamperAmount c i j a ! k) = hash (c ! k)"
  by (simp_all add: tamperAmount_nth)

lemma tamperAmount_amount:
  "i < length c \<Longrightarrow> j < length (transactions (c ! i))
   \<Longrightarrow> amount (transactions (tamperAmount c i j a ! i) ! j) = a"
  by (simp add: tamperAmount_nth)

lemma isChainValidLoop_tamperAmount:
  "isChainValidLoop H (tamperAmount c i j a) k = isChainValidLoop H c k"
proof (induction H c k rule: isChainValidLoop.induct)
  case (1 H c k)
  show ?case
  proof (cases "k < length c")
    case True
    show ?thesis
      using "1.IH" True
      by (simp add: isChainValidLoop.simps [of H c k]
          isChainValidLoop.simps [of H "tamperAmount c i j a" k]
          Let_def tamperAmount_length tamperAmount_header calculateHash_def)
  next
    case False
    then show ?thesis
      by (simp add: isChainValidLoop.simps [of H c k]
          isChainValidLoop.simps [of H "tamperAmount c i j a" k] tamperAmount_length)
  qed
qed

text \<open>
  Claim C2 says that changing the amount of a transaction inside an appended block,
  with no hash recomputed, makes \<open>isChainValid\<close> return false. The repository's own
  test of chain validation asserts the same. \<open>isChainValid\<close> reads the header fields of
  the blocks only, and the Merkle root it hashes is the stored one, so the result is
  the same before and after the change, for every chain, position and amount. The
  second part runs the code on a chain it has built itself, for every digest: a new
  chain of difficulty 0, a reward of 50 to \<open>A\<close> submitted and mined, then
  \<open>chain[1].transactions[0].amount = 100\<close>. The chain is valid before, and still
  valid after.
\<close>

theorem isChainValid_ignores_amount:
  "isChainValid H (bc\<lparr>chain := tamperAmount (chain bc) i j a\<rparr>) = isChainValid H bc
   \<and> (let bc0 = Blockchain_new H MR 0 0 (50 :: int);
           bc1 = snd (addTransaction bc0 (Transaction_new ''t1'' 0 None (Some ''A'') (50 :: int) ''reward''));
           bc2 = snd (minePendingTransactions H MR ''t2'' 0 0 bc1 (Some ''M''));
           bc3 = bc2\<lparr>chain := tamperAmount (chain bc2) 1 0 100\<rparr>
       in length (chain bc2) = 2
          \<and> amount (transactions (chain bc2 ! 1) ! 0) = 50
          \<and> isChainValid H bc2
          \<and> amount (transactions (chain bc3 ! 1) ! 0) = 100
          \<and> isChainValid H bc3)"
proof -
  have general: "isChainValid H (bc\<lparr>chain := tamperAmount (chain bc) i j a\<rparr>) = isChainValid H bc"
    by (simp add: isChainValid_def isChainValidLoop_tamperAmount)
  define bc0 where "bc0 = Blockchain_new H MR 0 0 (50 :: int)"
  define t1 where "t1 = Transaction_new ''t1'' 0 None (Some ''A'') (50 :: int) ''reward''"
  define bc1 where "bc1 = snd (addTransaction bc0 t1)"
  define bc2 where "bc2 = snd (minePendingTransactions H MR ''t2'' 0 0 bc1 (Some ''M''))"
  define g :: "int block" where "g = createGenesisBlock H MR 0"
  define b where "b = Block_new H MR 0 1 (hash g)
      [t1, Transaction_new ''t2'' 0 None (Some ''M'') (50 :: int) ''reward''] 0"
  have c1: "chain bc1 = [g]" "chainDifficulty bc1 = 0" "miningReward bc1 = 50"
    by (simp_all add: bc1_def addTransaction_chain addTransaction_config bc0_def
        Blockchain_new_def g_def)
  have p1: "pendingTransactions bc1 = [t1]"
    unfolding bc1_def t1_def
    by (subst addTransaction_reward_pending) (simp_all add: falsy_def bc0_def Blockchain_new_def)
  have c2: "chain bc2 = [g, b]"
    unfolding bc2_def
    by (subst minePendingTransactions_appends)
      (simp_all add: c1 p1 Let_def b_def mineBlock_difficulty_0 Block_new_fields
        g_def createGenesisBlock_def)
  have valid2: "isChainValid H bc2"
    using isChainValid_two_blocks [OF c2, of H]
    by (simp add: b_def Block_new_hash_correct Block_new_fields substring_def str_repeat_def)
  have valid3: "isChainValid H (bc2\<lparr>chain := tamperAmount (chain bc2) 1 0 100\<rparr>)"
    using valid2 by (simp add: isChainValid_def isChainValidLoop_tamperAmount)
  have am: "amount (transactions (chain bc2 ! 1) ! 0) = 50"
    by (simp add: c2 b_def Block_new_fields t1_def Transaction_new_def)
  have am': "amount (transactions (tamperAmount (chain bc2) 1 0 100 ! 1) ! 0) = 100"
    by (rule tamperAmount_amount) (simp_all add: c2 b_def Block_new_fields)
  show ?thesis
    using general valid2 valid3 am am' c2
    by (simp add: Let_def bc0_def [symmetric] t1_def [symmetric] bc1_def [symmetric]
        bc2_def [symmetric])
qed

section \<open>Fork choice\<close>

text \<open>\<open>isValidChain\<close> on a candidate, and when it cannot throw.\<close>

lemma repeatChecked_zeros:
  "repeatChecked L ''0'' n = (if L < n then Inl RangeError else Inr (replicate n CHR ''0''))"
  by (simp add: repeatChecked_def str_repeat_single)

lemma isValidChainLoop_within_limit:
  "\<forall>k<length c. difficulty (c ! k) \<le> L \<Longrightarrow> isValidChainLoop L c i \<noteq> Inl e"
proof (induction L c i rule: isValidChainLoop.induct)
  case (1 L c i)
  show ?case
  proof (cases "i < length c")
    case False
    then show ?thesis by (simp add: isValidChainLoop.simps [of L c i])
  next
    case True
    with "1.prems" have d: "\<not> L < difficulty (c ! i)" by (simp add: not_less)
    show ?thesis
    proof (cases "startsWith (hash (c ! i)) (replicate (difficulty (c ! i)) CHR ''0'')
        \<and> previousHash (c ! i) = hash (c ! (i - 1))")
      case False
      with True d show ?thesis
        by (auto simp add: isValidChainLoop.simps [of L c i] Let_def repeatChecked_zeros)
    next
      case ok: True
      have "isValidChainLoop L c (i + 1) \<noteq> Inl e"
        using "1.IH" [of "c ! i" "c ! (i - 1)" "replicate (difficulty (c ! i)) CHR ''0''"]
          True d ok "1.prems"
        by (simp add: repeatChecked_zeros)
      with True d ok show ?thesis
        by (simp add: isValidChainLoop.simps [of L c i] Let_def repeatChecked_zeros)
    qed
  qed
qed

lemma isValidChain_within_limit:
  "c \<noteq> [] \<Longrightarrow> \<forall>k<length c. difficulty (c ! k) \<le> L \<Longrightarrow> isValidChain L c \<noteq> Inl e"
  using isValidChainLoop_within_limit [of c L 1 e]
  by (cases c) (auto simp add: isValidChain_def)

lemma isValidChain_two_blocks:
  "isValidChain L [g, b] =
     (if index g \<noteq> 0 \<or> \<not> startsWith (hash g) ''0'' then Inr False
      else if L < difficulty b then Inl RangeError
      else Inr (startsWith (hash b) (str_repeat ''0'' (difficulty b))
                \<and> previousHash b = hash g))"
  by (simp add: isValidChain_def isValidChainLoop.simps [of L "[g, b]" "Suc 0"]
      isValidChainLoop.simps [of L "[g, b]" "Suc (Suc 0)"] Let_def repeatChecked_zeros
      str_repeat_single)

text \<open>
  Claim C3 says that \<open>replaceChain\<close> only ever returns true or false. The candidate
  comes from outside, and \<open>isValidChain\<close> builds, for every block after the first, a
  string of as many zeros as the block's own \<open>difficulty\<close> field says:
  \<open>String.prototype.repeat\<close> throws a \<open>RangeError\<close> when the result is longer than
  the engine allows (\<open>L\<close>). So a candidate of two blocks whose second block carries a
  difficulty above \<open>L\<close>, offered to a chain of fewer than two blocks, makes
  \<open>replaceChain\<close> throw, with the state as it was. The rest of the claim holds: true
  comes back exactly for a strictly longer candidate on which \<open>isValidChain\<close> returns
  true, and the candidate is then the chain; in every other case the state is as
  before; a candidate that is not longer gives false; difficulty, reward and pending
  transactions are never changed; and a candidate whose difficulties are all within
  \<open>L\<close> never makes it throw.
\<close>

theorem replaceChain_throws_RangeError:
  "(length (chain bc) < 2 \<and> index g = 0 \<and> startsWith (hash g) ''0'' \<and> L < difficulty b
      \<longrightarrow> replaceChain L bc [g, b] = (Inl RangeError, bc))
   \<and> (fst (replaceChain L bc c) = Inr True
        \<longleftrightarrow> length (chain bc) < length c \<and> isValidChain L c = Inr True)
   \<and> (fst (replaceChain L bc c) = Inr True
        \<longrightarrow> snd (replaceChain L bc c) = bc\<lparr>chain := c, emitted := emitted bc @ [ChainReplaced c]\<rparr>)
   \<and> (fst (replaceChain L bc c) \<noteq> Inr True \<longrightarrow> snd (replaceChain L bc c) = bc)
   \<and> (length c \<le> length (chain bc) \<longrightarrow> replaceChain L bc c = (Inr False, bc))
   \<and> chainDifficulty (snd (replaceChain L bc c)) = chainDifficulty bc
   \<and> pendingTransactions (snd (replaceChain L bc c)) = pendingTransactions bc
   \<and> miningReward (snd (replaceChain L bc c)) = miningReward bc
   \<and> ((\<forall>k<length c. difficulty (c ! k) \<le> L) \<longrightarrow> (\<forall>e. fst (replaceChain L bc c) \<noteq> Inl e))"
proof -
  have throws: "length (chain bc) < 2 \<and> index g = 0 \<and> startsWith (hash g) ''0''
      \<and> L < difficulty b \<longrightarrow> replaceChain L bc [g, b] = (Inl RangeError, bc)"
    by (simp add: replaceChain_def isValidChain_two_blocks)
  have state: "(fst (replaceChain L bc c) = Inr True
        \<longleftrightarrow> length (chain bc) < length c \<and> isValidChain L c = Inr True)
   \<and> (fst (replaceChain L bc c) = Inr True
        \<longrightarrow> snd (replaceChain L bc c) = bc\<lparr>chain := c, emitted := emitted bc @ [ChainReplaced c]\<rparr>)
   \<and> (fst (replaceChain L bc c) \<noteq> Inr True \<longrightarrow> snd (replaceChain L bc c) = bc)
   \<and> (length c \<le> length (chain bc) \<longrightarrow> replaceChain L bc c = (Inr False, bc))
   \<and> chainDifficulty (snd (replaceChain L bc c)) = chainDifficulty bc
   \<and> pendingTransactions (snd (replaceChain L bc c)) = pendingTransactions bc
   \<and> miningReward (snd (replaceChain L bc c)) = miningReward bc"
    by (auto simp add: replaceChain_def Let_def split: sum.split)
  have quiet: "(\<forall>k<length c. difficulty (c ! k) \<le> L) \<longrightarrow> (\<forall>e. fst (replaceChain L bc c) \<noteq> Inl e)"
  proof (intro impI allI)
    fix e assume lim: "\<forall>k<length c. difficulty (c ! k) \<le> L"
    show "fst (replaceChain L bc c) \<noteq> Inl e"
    proof (cases "length c \<le> length (chain bc)")
      case True
      then show ?thesis by (simp add: replaceChain_def)
    next
      case False
      then have "c \<noteq> []" by auto
      then have "isValidChain L c \<noteq> Inl e"
        using isValidChain_within_limit lim by blast
      with False show ?thesis
        by (auto simp add: replaceChain_def Let_def split: sum.split)
    qed
  qed
  from throws state quiet show ?thesis by blast
qed

theorem replaceChain_throws_RangeError_witness:
  "(let H = (\<lambda>i p t m n k. ''00ab'');
        MR = (\<lambda>ids. ''m'');
        t1 = Transaction_new ''t1'' 0 None (Some ''A'') (50 :: int) ''reward'';
        bc = (Blockchain_new H MR 0 2 50)\<lparr>pendingTransactions := [t1]\<rparr>;
        g = createGenesisBlock H MR 0;
        ok = Block_new H MR 1 1 (hash g) [] 2;
        b = ok\<lparr>difficulty := 1073741824\<rparr>
    in replaceChain 536870888 bc [g, b] = (Inl RangeError, bc)
       \<and> replaceChain 536870888 bc [g, ok]
           = (Inr True, bc\<lparr>chain := [g, ok], emitted := [ChainReplaced [g, ok]]\<rparr>)
       \<and> pendingTransactions (snd (replaceChain 536870888 bc [g, ok])) = [t1]
       \<and> replaceChain 536870888 bc [g] = (Inr False, bc))"
proof -
  define H :: digest where "H = (\<lambda>i p t m n k. ''00ab'')"
  define MR :: "string list \<Rightarrow> string" where "MR = (\<lambda>ids. ''m'')"
  define t1 where "t1 = Transaction_new ''t1'' 0 None (Some ''A'') (50 :: int) ''reward''"
  define bc where "bc = (Blockchain_new H MR 0 2 50)\<lparr>pendingTransactions := [t1]\<rparr>"
  define g :: "int block" where "g = createGenesisBlock H MR 0"
  define ok where "ok = Block_new H MR 1 1 (hash g) ([] :: int transaction list) 2"
  define b where "b = ok\<lparr>difficulty := 1073741824\<rparr>"
  define L :: nat where "L = 536870888"
  have len: "length (chain bc) = 1"
    by (simp add: bc_def Blockchain_new_def)
  have gen: "index g = 0" "startsWith (hash g) ''0''"
    by (simp_all add: g_def createGenesisBlock_def Block_new_fields Block_new_hash_genesis
        forcedHash_eq startsWith_def)
  have big: "L < difficulty b"
    by (simp add: b_def L_def)
  have valid: "isValidChain L [g, ok] = Inr True"
    using gen
    by (simp add: isValidChain_two_blocks ok_def L_def Block_new_fields startsWith_def
        str_repeat_single Block_new_def Let_def calculateHash_def H_def numeral_2_eq_2)
  have fields: "pendingTransactions bc = [t1]" "emitted bc = []"
    by (simp_all add: bc_def Blockchain_new_def)
  have "replaceChain L bc [g, b] = (Inl RangeError, bc)
       \<and> replaceChain L bc [g, ok]
           = (Inr True, bc\<lparr>chain := [g, ok], emitted := [ChainReplaced [g, ok]]\<rparr>)
       \<and> pendingTransactions (snd (replaceChain L bc [g, ok])) = [t1]
       \<and> replaceChain L bc [g] = (Inr False, bc)"
    using replaceChain_throws_RangeError [where bc = bc and g = g and L = L and b = b and c = "[g, ok]"]
      replaceChain_throws_RangeError [where bc = bc and g = g and L = L and b = b and c = "[g]"]
      len gen big valid fields
    by (simp add: prod_eq_iff)
  then show ?thesis
    unfolding Let_def b_def ok_def g_def bc_def t1_def MR_def H_def L_def .
qed
section \<open>Balances\<close>

text \<open>
  Over exact numbers (a commutative group), the nested loops of \<open>getBalanceOfAddress\<close>
  compute the specification's sum.
\<close>

lemma fold_balanceStep:
  "fold (balanceStep address) txs (balance :: 'n::ab_group_add)
     = balance + sum_list (map (\<lambda>t. (if toAddress t = address then amount t else 0)
                        - (if fromAddress t = address then amount t else 0)) txs)"
  by (induction txs arbitrary: balance) (simp_all add: balanceStep_def Let_def)

lemma fold_blocks_balance:
  "fold (\<lambda>b balance. fold (balanceStep address) (transactions b) balance) c balance
     = (balance :: 'n::ab_group_add) + balanceSum (\<lambda>x. x) c address"
  by (induction c arbitrary: balance) (simp_all add: balanceSum_def fold_balanceStep)

lemma getBalanceOfAddress_balanceSum:
  "getBalanceOfAddress bc address = balanceSum (\<lambda>x. x :: 'n::ab_group_add) (chain bc) address"
  by (simp add: getBalanceOfAddress_def fold_blocks_balance)

lemma balanceSum_append:
  "balanceSum val (c @ [b]) address
     = balanceSum val c address
       + sum_list (map (\<lambda>t. (if toAddress t = address then val (amount t) else 0)
                        - (if fromAddress t = address then val (amount t) else 0))
                    (transactions b))"
  by (simp add: balanceSum_def)

lemma balanceSum_genesis: "balanceSum val [createGenesisBlock H MR now] address = 0"
  by (simp add: balanceSum_def createGenesisBlock_def Block_new_fields)

lemma mined_chain:
  "chain bc \<noteq> [] \<Longrightarrow>
   chain (snd (minePendingTransactions H MR uuid txNow blockNow bc miner))
     = chain bc @ [mineBlock H (Block_new H MR blockNow (index (last (chain bc)) + 1)
                (hash (last (chain bc)))
                (pendingTransactions bc
                   @ [Transaction_new uuid txNow None miner (miningReward bc) ''reward''])
                (chainDifficulty bc))]"
  by (simp add: minePendingTransactions_appends Let_def)

lemma mined_balance:
  "chain bc \<noteq> [] \<Longrightarrow>
   getBalanceOfAddress (snd (minePendingTransactions H MR uuid txNow blockNow bc miner)) address
     = getBalanceOfAddress (bc :: int blockchain) address
       + sum_list (map (\<lambda>t. (if toAddress t = address then amount t else 0)
                        - (if fromAddress t = address then amount t else 0))
                    (pendingTransactions bc))
       + (if miner = address then miningReward bc else 0)
       - (if address = None then miningReward bc else 0)"
  by (simp add: getBalanceOfAddress_balanceSum mined_chain balanceSum_append mineBlock_keeps
      Block_new_fields Transaction_new_def)

lemma mined_state:
  "chain bc \<noteq> [] \<Longrightarrow>
   pendingTransactions (snd (minePendingTransactions H MR uuid txNow blockNow bc miner)) = []"
  "chain bc \<noteq> [] \<Longrightarrow>
   miningReward (snd (minePendingTransactions H MR uuid txNow blockNow bc miner)) = miningReward bc"
  "chain bc \<noteq> [] \<Longrightarrow>
   chainDifficulty (snd (minePendingTransactions H MR uuid txNow blockNow bc miner))
     = chainDifficulty bc"
  "chain bc \<noteq> [] \<Longrightarrow>
   chain (snd (minePendingTransactions H MR uuid txNow blockNow bc miner)) \<noteq> []"
  by (simp_all add: minePendingTransactions_appends Let_def)

lemma addTransaction_balance:
  "getBalanceOfAddress (snd (addTransaction bc t)) address
     = getBalanceOfAddress (bc :: int blockchain) address"
  by (simp add: getBalanceOfAddress_balanceSum addTransaction_chain)

lemma addTransaction_pending_ok:
  "\<not> (falsy (toAddress t) \<or> amount t \<le> 0
     \<or> (tx_type t \<noteq> ''reward''
         \<and> (falsy (fromAddress t) \<or> getBalanceOfAddress bc (fromAddress t) < amount t)))
   \<Longrightarrow> pendingTransactions (snd (addTransaction bc t)) = pendingTransactions bc @ [t]"
  by (auto simp add: addTransaction_def Let_def split: option.split)

subsection \<open>Rounding\<close>

text \<open>
  Integers up to \<open>2^53\<close> in magnitude are doubles: \<open>round64\<close> returns them as they
  are. \<open>2^53 + 1\<close> is not a double, and is rounded to \<open>2^53\<close>.
\<close>

lemma floorlog_2_eq:
  "2 ^ k \<le> n \<Longrightarrow> n < 2 ^ Suc k \<Longrightarrow> floorlog 2 n = Suc k"
proof -
  assume a: "2 ^ k \<le> n" "n < 2 ^ Suc k"
  have "floorlog 2 n \<le> Suc k"
    using a(2) by (simp add: floorlog_le_iff)
  moreover have "\<not> floorlog 2 n \<le> k"
    using a(1) by (simp add: floorlog_le_iff not_less)
  ultimately show ?thesis by simp
qed

lemma roundTiesToEven_of_int: "roundTiesToEven (of_int n) = n"
  by (simp add: roundTiesToEven_def)

lemma in_range:
  assumes "\<bar>x\<bar> \<le> (2 :: rat) ^ 53"
  shows "\<not> 2 ^ 1024 \<le> x" and "\<not> x \<le> - (2 ^ 1024)"
proof -
  have "(2 :: rat) ^ 53 < 2 ^ 1024"
    by (rule power_strict_increasing) simp_all
  with assms have "\<bar>x\<bar> < 2 ^ 1024" by simp
  then show "\<not> 2 ^ 1024 \<le> x" and "\<not> x \<le> - (2 ^ 1024)" by (simp_all add: abs_less_iff)
qed

lemma round64_small:
  assumes "\<bar>n\<bar> < (2 :: int) ^ 53"
  shows "round64 (of_int n) = Fin (of_int n)"
proof -
  have "nat \<bar>n\<bar> < 2 ^ 53"
    using assms by (simp add: nat_less_iff)
  then have s: "int (floorlog 2 (nat \<bar>n\<bar>)) - 53 \<le> 0"
    by (simp add: floorlog_le_iff)
  have "\<bar>(of_int n :: rat)\<bar> \<le> of_int (2 ^ 53)"
    using assms unfolding of_int_abs [symmetric] of_int_le_iff by simp
  then have "\<bar>(of_int n :: rat)\<bar> \<le> 2 ^ 53" by simp
  from in_range [OF this] s show ?thesis
    by (simp add: round64_def quotient_of_rat_of_int Let_def)
qed

lemma round64_pow53:
  "round64 (2 ^ 53) = Fin (2 ^ 53)" "round64 (- (2 ^ 53)) = Fin (- (2 ^ 53))"
proof -
  have q: "quotient_of ((2 :: rat) ^ 53) = (2 ^ 53, 1)"
      "quotient_of (- ((2 :: rat) ^ 53)) = (- (2 ^ 53), 1)"
    using quotient_of_rat_of_int [of "2 ^ 53"] quotient_of_rat_of_int [of "- (2 ^ 53)"]
    by simp_all
  have fl: "floorlog 2 (nat \<bar>(2 :: int) ^ 53\<bar>) = 54"
      "floorlog 2 (nat \<bar>- ((2 :: int) ^ 53)\<bar>) = 54"
    using floorlog_2_eq [of 53 "2 ^ 53"] by (simp_all add: nat_power_eq)
  have half: "(2 :: rat) ^ 53 / 2 = of_int (2 ^ 52)" "- ((2 :: rat) ^ 53) / 2 = of_int (- (2 ^ 52))"
    by simp_all
  have r: "\<not> (2 :: rat) ^ 1024 \<le> 2 ^ 53" "\<not> (2 :: rat) ^ 53 \<le> - (2 ^ 1024)"
      "\<not> (2 :: rat) ^ 1024 \<le> - (2 ^ 53)" "\<not> - ((2 :: rat) ^ 53) \<le> - (2 ^ 1024)"
    using in_range [of "2 ^ 53"] in_range [of "- (2 ^ 53)"] by simp_all
  show "round64 (2 ^ 53) = Fin (2 ^ 53)"
    unfolding round64_def q Let_def prod.case fl
    by (simp add: roundTiesToEven_def Let_def)
  show "round64 (- (2 ^ 53)) = Fin (- (2 ^ 53))"
    unfolding round64_def q Let_def prod.case fl
    by (simp add: roundTiesToEven_def Let_def)
qed

lemma round64_of_int:
  assumes "\<bar>n\<bar> \<le> (2 :: int) ^ 53"
  shows "round64 (of_int n) = Fin (of_int n)"
proof -
  consider "\<bar>n\<bar> < 2 ^ 53" | "n = 2 ^ 53" | "n = - (2 ^ 53)"
    using assms by linarith
  then show ?thesis
  proof cases
    case 1
    then show ?thesis by (rule round64_small)
  next
    case 2
    then show ?thesis using round64_pow53(1) by simp
  next
    case 3
    then show ?thesis using round64_pow53(2) by simp
  qed
qed

lemma round64_above_pow53: "round64 9007199254740993 = Fin 9007199254740992"
proof -
  have q: "quotient_of (9007199254740993 :: rat) = (9007199254740993, 1)"
    using quotient_of_rat_of_int [of 9007199254740993] by simp
  have fl: "floorlog 2 (nat \<bar>9007199254740993 :: int\<bar>) = 54"
    using floorlog_2_eq [of 53 9007199254740993] by simp
  have "\<lfloor>(9007199254740993 :: rat) / 2\<rfloor> = 4503599627370496"
    by (rule floor_unique) simp_all
  then have rt: "roundTiesToEven (9007199254740993 / 2) = 4503599627370496"
    by (simp add: roundTiesToEven_def Let_def)
  show ?thesis
    unfolding round64_def q Let_def prod.case fl
    by (simp add: rt)
qed

text \<open>
  \<open>0.1 + 0.2\<close>: the doubles nearest to \<open>0.1\<close> and \<open>0.2\<close> are
  \<open>3602879701896397 / 2^55\<close> and \<open>3602879701896397 / 2^54\<close>, and their sum is rounded
  to \<open>5404319552844596 / 2^54\<close>, which prints as \<open>0.30000000000000004\<close>.
\<close>

lemma round64_tenths:
  "round64 (3602879701896397 / 2 ^ 55 + 3602879701896397 / 2 ^ 54)
     = Fin (5404319552844596 / 2 ^ 54)"
proof -
  have e: "(3602879701896397 / 2 ^ 55 + 3602879701896397 / 2 ^ 54 :: rat)
      = of_int 10808639105689191 / of_int (2 ^ 55)"
    by simp
  have cp: "coprime (10808639105689191 :: int) (2 ^ 55)"
    by (subst coprime_power_right_iff) simp
  have "quotient_of (Fract 10808639105689191 (2 ^ 55)) = (10808639105689191, 2 ^ 55)"
    unfolding quotient_of_Fract using normalize_stable [OF _ cp] by simp
  then have q: "quotient_of (3602879701896397 / 2 ^ 55 + 3602879701896397 / 2 ^ 54)
      = (10808639105689191, 2 ^ 55)"
    unfolding e Fract_of_int_quotient .
  have fl: "floorlog 2 (nat \<bar>10808639105689191 :: int\<bar>) = 54"
    using floorlog_2_eq [of 53 10808639105689191] by simp
  have "\<lfloor>(10808639105689191 :: rat) / 2\<rfloor> = 5404319552844595"
    by (rule floor_unique) simp_all
  then have rt: "roundTiesToEven (10808639105689191 / 2) = 5404319552844596"
    by (simp add: roundTiesToEven_def Let_def)
  show ?thesis
    unfolding round64_def q Let_def prod.case fl
    by (simp add: rt)
qed

subsection \<open>The balance on doubles\<close>

lemma double_plus: "Fin x + Fin y = round64 (x + y)"
  by (simp add: plus_double_def)

lemma double_minus: "Fin x - Fin y = round64 (x - y)"
  by (simp add: minus_double_def)

lemma double_zero: "(0 :: double) = Fin (of_int 0)"
  by (simp add: zero_double_def)

lemma balanceStep_not_involved:
  "\<not> involves address t \<Longrightarrow> balanceStep address t balance = balance"
  by (simp add: involves_def balanceStep_def)

lemma balanceStep_safe:
  assumes "amount t = Fin (of_int n)" and "\<bar>k\<bar> + \<bar>n\<bar> \<le> 2 ^ 53"
  shows "balanceStep address t (Fin (of_int k))
     = Fin (of_int (k + (if toAddress t = address then n else 0)
                      - (if fromAddress t = address then n else 0)))"
proof -
  have "\<bar>k\<bar> \<le> 2 ^ 53" "\<bar>k + n\<bar> \<le> 2 ^ 53" "\<bar>k - n\<bar> \<le> 2 ^ 53"
    using assms(2) by linarith+
  then have r: "round64 (of_int k + of_int n) = Fin (of_int (k + n))"
      "round64 (of_int k - of_int n) = Fin (of_int (k - n))"
      "round64 (of_int (k + n) - of_int n) = Fin (of_int k)"
    using round64_of_int [of "k + n"] round64_of_int [of "k - n"] round64_of_int [of k]
    by simp_all
  show ?thesis
    by (simp add: balanceStep_def Let_def assms(1) double_plus double_minus r
        del: of_int_add of_int_diff)
qed

text \<open>
  The two loops run over the transactions of the chain in order. A transaction that
  does not name the address leaves the balance as it is; one that does keeps it an
  integer within \<open>2^53\<close> as long as the magnitudes seen so far allow.
\<close>

lemma fold_blocks_concat:
  "fold (\<lambda>b balance. fold f (transactions b) balance) c x
     = fold f (concat (map transactions c)) x"
  by (induction c arbitrary: x) simp_all

lemma getBalanceOfAddress_fold:
  "getBalanceOfAddress bc address
     = fold (balanceStep address) (concat (map transactions (chain bc))) 0"
  by (simp add: getBalanceOfAddress_def fold_blocks_concat)

lemma isIntegerE:
  assumes "isInteger d"
  obtains n where "d = Fin (of_int n)"
  using assms by (cases d) (auto simp add: isInteger_def)

lemma fold_balanceStep_safe:
  assumes "list_all (\<lambda>t. isInteger (amount t)) (filter (involves address) ts)"
    and "of_int \<bar>k\<bar> + sum_list (map (\<lambda>t. \<bar>valueOf (amount t)\<bar>) (filter (involves address) ts))
           \<le> 2 ^ 53"
  shows "fold (balanceStep address) ts (Fin (of_int k))
     = Fin (of_int k
            + sum_list (map (\<lambda>t. (if toAddress t = address then valueOf (amount t) else 0)
                                 - (if fromAddress t = address then valueOf (amount t) else 0)) ts))"
  using assms
proof (induction ts arbitrary: k)
  case Nil
  then show ?case by simp
next
  case (Cons t ts)
  let ?rest = "sum_list (map (\<lambda>t. \<bar>valueOf (amount t)\<bar>) (filter (involves address) ts))"
  have rest: "0 \<le> ?rest"
    by (rule sum_list_nonneg) auto
  show ?case
  proof (cases "involves address t")
    case False
    with Cons.prems have "fold (balanceStep address) ts (Fin (of_int k))
       = Fin (of_int k
            + sum_list (map (\<lambda>t. (if toAddress t = address then valueOf (amount t) else 0)
                                 - (if fromAddress t = address then valueOf (amount t) else 0)) ts))"
      by (intro Cons.IH) simp_all
    with False show ?thesis
      by (simp add: balanceStep_not_involved) (simp add: involves_def)
  next
    case True
    with Cons.prems(1) have "isInteger (amount t)" by simp
    then obtain n where n: "amount t = Fin (of_int n)" by (rule isIntegerE)
    define k' where "k' = k + (if toAddress t = address then n else 0)
                      - (if fromAddress t = address then n else 0)"
    from Cons.prems(2) True n have "of_int \<bar>k\<bar> + of_int \<bar>n\<bar> + ?rest \<le> 2 ^ 53"
      by (simp add: valueOf_def)
    then have b: "(of_int (\<bar>k\<bar> + \<bar>n\<bar>) :: rat) + ?rest \<le> of_int (2 ^ 53)"
      by simp
    with rest have "(of_int (\<bar>k\<bar> + \<bar>n\<bar>) :: rat) \<le> of_int (2 ^ 53)"
      by linarith
    then have kn: "\<bar>k\<bar> + \<bar>n\<bar> \<le> 2 ^ 53"
      unfolding of_int_le_iff .
    have "\<bar>k'\<bar> \<le> \<bar>k\<bar> + \<bar>n\<bar>"
      by (auto simp add: k'_def)
    then have "(of_int \<bar>k'\<bar> :: rat) \<le> of_int (\<bar>k\<bar> + \<bar>n\<bar>)"
      unfolding of_int_le_iff .
    with b have k': "of_int \<bar>k'\<bar> + ?rest \<le> 2 ^ 53"
      by simp
    have step: "balanceStep address t (Fin (of_int k)) = Fin (of_int k')"
      unfolding k'_def by (rule balanceStep_safe [OF n kn])
    have "fold (balanceStep address) ts (Fin (of_int k'))
       = Fin (of_int k'
            + sum_list (map (\<lambda>t. (if toAddress t = address then valueOf (amount t) else 0)
                                 - (if fromAddress t = address then valueOf (amount t) else 0)) ts))"
      using Cons.prems(1) True k' by (intro Cons.IH) simp_all
    then show ?thesis
      by (simp add: step) (simp add: k'_def n valueOf_def)
  qed
qed

lemma getBalanceOfAddress_safe:
  assumes "safeIntegers (chain bc) address"
  shows "getBalanceOfAddress bc address = Fin (balanceSum valueOf (chain bc) address)"
  using assms fold_balanceStep_safe [of address "concat (map transactions (chain bc))" 0]
  by (simp add: getBalanceOfAddress_fold safeIntegers_def Let_def balanceSum_def zero_double_def)

text \<open>The transactions of a chain after mining, and the scenario of the claim.\<close>

lemma mined_transactions:
  "chain bc \<noteq> [] \<Longrightarrow>
   concat (map transactions (chain (snd (minePendingTransactions H MR uuid txNow blockNow bc miner))))
     = concat (map transactions (chain bc)) @ pendingTransactions bc
       @ [Transaction_new uuid txNow None miner (miningReward bc) ''reward'']"
  by (simp add: mined_chain mineBlock_keeps Block_new_fields)

lemma new_transactions:
  "concat (map transactions (chain (Blockchain_new H MR now d reward))) = []"
  by (simp add: Blockchain_new_def createGenesisBlock_def Block_new_fields)

lemma round64_examples:
  "round64 50 = Fin 50" "round64 30 = Fin 30" "round64 20 = Fin 20"
  "round64 9007199254740992 = Fin 9007199254740992"
  using round64_of_int [of 50] round64_of_int [of 30] round64_of_int [of 20]
    round64_of_int [of 9007199254740992]
  by simp_all

lemma double_order:
  "(Fin x \<le> 0) = (x \<le> 0)" "(Fin x < Fin y) = (x < y)"
  by (simp_all add: less_eq_double_def less_double_def zero_double_def)

text \<open>
  Claim C7 says that, for every chain and every address, the balance equals the sum
  over all transactions of all blocks of \<open>+amount\<close> where the address receives and
  \<open>-amount\<close> where it sends. The amounts are doubles, and the code adds and subtracts
  them one at a time, rounding every time: the equality with the exact sum needs every
  partial sum to be a double. What holds: the pending transactions play no part; when
  every amount sent to or from the address is an integer and the magnitudes of these
  amounts add up to \<open>2^53\<close> at most, the balance is exactly the sum; and on a new
  chain (any difficulty and reward, any digest), for two distinct non-empty addresses
  \<open>A\<close> and \<open>B\<close> and a miner that is neither, once a reward of 50 to \<open>A\<close> is
  submitted \<open>A\<close> still has 0; once it is mined \<open>A\<close> has 50; a transfer of 30 from
  \<open>A\<close> to \<open>B\<close> is then admitted, changes no balance while pending, and once mined
  leaves 20 to \<open>A\<close> and 30 to \<open>B\<close>.
\<close>

theorem balance_exact_on_safe_integers:
  "getBalanceOfAddress (bc\<lparr>pendingTransactions := p\<rparr>) address
       = getBalanceOfAddress bc address
   \<and> (safeIntegers (chain bc) address
        \<longrightarrow> getBalanceOfAddress bc address = Fin (balanceSum valueOf (chain bc) address))
   \<and> (A \<noteq> [] \<and> B \<noteq> [] \<and> A \<noteq> B \<and> miner \<noteq> Some A \<and> miner \<noteq> Some B \<longrightarrow>
       (let bc0 = Blockchain_new H MR now d reward;
            bc1 = snd (addTransaction bc0 (Transaction_new u1 n1 None (Some A) (Fin 50) ''reward''));
            bc2 = snd (minePendingTransactions H MR u2 n2 n3 bc1 miner);
            bc3 = snd (addTransaction bc2
                         (Transaction_new u3 n4 (Some A) (Some B) (Fin 30) ''regular''));
            bc4 = snd (minePendingTransactions H MR u4 n5 n6 bc3 miner)
        in getBalanceOfAddress bc1 (Some A) = Fin 0
           \<and> getBalanceOfAddress bc2 (Some A) = Fin 50
           \<and> getBalanceOfAddress bc3 (Some A) = Fin 50
           \<and> getBalanceOfAddress bc3 (Some B) = Fin 0
           \<and> getBalanceOfAddress bc4 (Some A) = Fin 20
           \<and> getBalanceOfAddress bc4 (Some B) = Fin 30))"
proof (intro conjI impI)
  show "getBalanceOfAddress (bc\<lparr>pendingTransactions := p\<rparr>) address
       = getBalanceOfAddress bc address"
    by (simp add: getBalanceOfAddress_def)
next
  assume "safeIntegers (chain bc) address"
  then show "getBalanceOfAddress bc address = Fin (balanceSum valueOf (chain bc) address)"
    by (rule getBalanceOfAddress_safe)
next
  assume "A \<noteq> [] \<and> B \<noteq> [] \<and> A \<noteq> B \<and> miner \<noteq> Some A \<and> miner \<noteq> Some B"
  then have names: "A \<noteq> []" "B \<noteq> []" "A \<noteq> B" "B \<noteq> A"
      "miner \<noteq> Some A" "miner \<noteq> Some B"
    by auto
  define t1 where "t1 = Transaction_new u1 n1 None (Some A) (Fin 50) ''reward''"
  define t3 where "t3 = Transaction_new u3 n4 (Some A) (Some B) (Fin 30) ''regular''"
  define bc0 where "bc0 = Blockchain_new H MR now d reward"
  define bc1 where "bc1 = snd (addTransaction bc0 t1)"
  define bc2 where "bc2 = snd (minePendingTransactions H MR u2 n2 n3 bc1 miner)"
  define bc3 where "bc3 = snd (addTransaction bc2 t3)"
  define bc4 where "bc4 = snd (minePendingTransactions H MR u4 n5 n6 bc3 miner)"
  define r1 where "r1 = Transaction_new u2 n2 None miner (miningReward bc1) ''reward''"
  define r2 where "r2 = Transaction_new u4 n5 None miner (miningReward bc3) ''reward''"
  have t: "toAddress t1 = Some A" "fromAddress t1 = None" "amount t1 = Fin 50"
      "tx_type t1 = ''reward''"
      "toAddress t3 = Some B" "fromAddress t3 = Some A" "amount t3 = Fin 30"
      "tx_type t3 = ''regular''"
      "toAddress r1 = miner" "fromAddress r1 = None" "toAddress r2 = miner" "fromAddress r2 = None"
    by (simp_all add: t1_def t3_def r1_def r2_def Transaction_new_def)
  have c0: "chain bc0 \<noteq> []" "pendingTransactions bc0 = []"
      "concat (map transactions (chain bc0)) = []"
    by (simp_all add: bc0_def new_transactions) (simp_all add: Blockchain_new_def)
  have c1: "chain bc1 \<noteq> []" "concat (map transactions (chain bc1)) = []"
    by (simp_all add: bc1_def addTransaction_chain c0)
  have p1: "pendingTransactions bc1 = [t1]"
    unfolding bc1_def using names
    by (subst addTransaction_pending_ok) (simp_all add: t falsy_def c0 double_order)
  have x2: "concat (map transactions (chain bc2)) = [t1, r1]"
    by (simp add: bc2_def mined_transactions c1 p1 r1_def)
  have c2: "chain bc2 \<noteq> []" "pendingTransactions bc2 = []"
    by (simp_all add: bc2_def mined_state c1)
  have a2: "getBalanceOfAddress bc2 (Some A) = Fin 50" "getBalanceOfAddress bc2 (Some B) = Fin 0"
    using names
    by (simp_all add: getBalanceOfAddress_fold x2 balanceStep_def Let_def t zero_double_def
        double_plus round64_examples)
  have c3: "chain bc3 \<noteq> []" "concat (map transactions (chain bc3)) = [t1, r1]"
    by (simp_all add: bc3_def addTransaction_chain c2 x2)
  have p3: "pendingTransactions bc3 = [t3]"
    unfolding bc3_def using names
    by (subst addTransaction_pending_ok) (simp_all add: t falsy_def a2 c2 double_order)
  have x4: "concat (map transactions (chain bc4)) = [t1, r1, t3, r2]"
    by (simp add: bc4_def mined_transactions c3 p3 r2_def)
  have a4: "getBalanceOfAddress bc4 (Some A) = Fin 20" "getBalanceOfAddress bc4 (Some B) = Fin 30"
    using names
    by (simp_all add: getBalanceOfAddress_fold x4 balanceStep_def Let_def t zero_double_def
        double_plus double_minus round64_examples)
  have a1: "getBalanceOfAddress bc1 (Some A) = Fin 0"
    by (simp add: getBalanceOfAddress_fold c1 zero_double_def)
  have a3: "getBalanceOfAddress bc3 (Some A) = Fin 50" "getBalanceOfAddress bc3 (Some B) = Fin 0"
    using a2 by (simp_all add: getBalanceOfAddress_fold c3 x2)
  have "getBalanceOfAddress bc1 (Some A) = Fin 0
           \<and> getBalanceOfAddress bc2 (Some A) = Fin 50
           \<and> getBalanceOfAddress bc3 (Some A) = Fin 50
           \<and> getBalanceOfAddress bc3 (Some B) = Fin 0
           \<and> getBalanceOfAddress bc4 (Some A) = Fin 20
           \<and> getBalanceOfAddress bc4 (Some B) = Fin 30"
    by (simp add: a1 a2 a3 a4)
  then show "let bc0 = Blockchain_new H MR now d reward;
            bc1 = snd (addTransaction bc0 (Transaction_new u1 n1 None (Some A) (Fin 50) ''reward''));
            bc2 = snd (minePendingTransactions H MR u2 n2 n3 bc1 miner);
            bc3 = snd (addTransaction bc2
                         (Transaction_new u3 n4 (Some A) (Some B) (Fin 30) ''regular''));
            bc4 = snd (minePendingTransactions H MR u4 n5 n6 bc3 miner)
        in getBalanceOfAddress bc1 (Some A) = Fin 0
           \<and> getBalanceOfAddress bc2 (Some A) = Fin 50
           \<and> getBalanceOfAddress bc3 (Some A) = Fin 50
           \<and> getBalanceOfAddress bc3 (Some B) = Fin 0
           \<and> getBalanceOfAddress bc4 (Some A) = Fin 20
           \<and> getBalanceOfAddress bc4 (Some B) = Fin 30"
    unfolding Let_def bc4_def bc3_def bc2_def bc1_def bc0_def t1_def t3_def .
qed

lemma scenario_transactions:
  fixes reward :: double and H :: digest and MR :: "string list \<Rightarrow> string" and d :: nat
  defines "t1 \<equiv> Transaction_new ''t1'' 1 None (Some ''A'') (Fin 50) ''reward''"
    and "t3 \<equiv> Transaction_new ''t3'' 4 (Some ''A'') (Some ''B'') (Fin 30) ''regular''"
  defines "bc3 \<equiv> snd (addTransaction
                      (snd (minePendingTransactions H MR ''t2'' 2 3
                          (snd (addTransaction (Blockchain_new H MR 0 d reward) t1)) (Some ''M'')))
                      t3)"
  shows "concat (map transactions (chain (snd (minePendingTransactions H MR ''t4'' 5 6 bc3 (Some ''M'')))))
     = [t1, Transaction_new ''t2'' 2 None (Some ''M'') reward ''reward'',
        t3, Transaction_new ''t4'' 5 None (Some ''M'') reward ''reward'']"
proof -
  define bc0 where "bc0 = Blockchain_new H MR 0 d reward"
  define bc1 where "bc1 = snd (addTransaction bc0 t1)"
  define bc2 where "bc2 = snd (minePendingTransactions H MR ''t2'' 2 3 bc1 (Some ''M''))"
  define r1 where "r1 = Transaction_new ''t2'' 2 None (Some ''M'') reward ''reward''"
  have bc3: "bc3 = snd (addTransaction bc2 t3)"
    by (simp add: bc3_def bc2_def bc1_def bc0_def)
  have t: "toAddress t1 = Some ''A''" "fromAddress t1 = None" "amount t1 = Fin 50"
      "tx_type t1 = ''reward''"
      "toAddress t3 = Some ''B''" "fromAddress t3 = Some ''A''" "amount t3 = Fin 30"
      "tx_type t3 = ''regular''"
      "toAddress r1 = Some ''M''" "fromAddress r1 = None"
    by (simp_all add: t1_def t3_def r1_def Transaction_new_def)
  have c0: "chain bc0 \<noteq> []" "pendingTransactions bc0 = []"
      "concat (map transactions (chain bc0)) = []" "miningReward bc0 = reward"
    by (simp_all add: bc0_def new_transactions) (simp_all add: Blockchain_new_def)
  have c1: "chain bc1 \<noteq> []" "concat (map transactions (chain bc1)) = []"
      "miningReward bc1 = reward"
    by (simp_all add: bc1_def addTransaction_chain addTransaction_config c0)
  have p1: "pendingTransactions bc1 = [t1]"
    unfolding bc1_def
    by (subst addTransaction_pending_ok) (simp_all add: t falsy_def c0 double_order)
  have x2: "concat (map transactions (chain bc2)) = [t1, r1]"
    by (simp add: bc2_def mined_transactions c1 p1 r1_def)
  have c2: "chain bc2 \<noteq> []" "pendingTransactions bc2 = []" "miningReward bc2 = reward"
    by (simp_all add: bc2_def mined_state c1)
  have a2: "getBalanceOfAddress bc2 (Some ''A'') = Fin 50"
    by (simp add: getBalanceOfAddress_fold x2 balanceStep_def Let_def t zero_double_def
        double_plus round64_examples)
  have c3: "chain bc3 \<noteq> []" "concat (map transactions (chain bc3)) = [t1, r1]"
      "miningReward bc3 = reward"
    by (simp_all add: bc3 addTransaction_chain addTransaction_config c2 x2)
  have p3: "pendingTransactions bc3 = [t3]"
    unfolding bc3
    by (subst addTransaction_pending_ok) (simp_all add: t falsy_def a2 c2 double_order)
  show ?thesis
    by (simp add: mined_transactions c3 p3 r1_def)
qed

theorem balance_exact_on_safe_integers_witness:
  "(let H = (\<lambda>i p t m n k. ''00ab''); MR = (\<lambda>ids. ''m'');
        bc0 = Blockchain_new H MR 0 2 (Fin 50);
        bc1 = snd (addTransaction bc0 (Transaction_new ''t1'' 1 None (Some ''A'') (Fin 50) ''reward''));
        bc2 = snd (minePendingTransactions H MR ''t2'' 2 3 bc1 (Some ''M''));
        bc3 = snd (addTransaction bc2
                     (Transaction_new ''t3'' 4 (Some ''A'') (Some ''B'') (Fin 30) ''regular''));
        bc4 = snd (minePendingTransactions H MR ''t4'' 5 6 bc3 (Some ''M''))
    in safeIntegers (chain bc4) (Some ''M'')
       \<and> getBalanceOfAddress bc4 (Some ''M'') = Fin (balanceSum valueOf (chain bc4) (Some ''M''))
       \<and> balanceSum valueOf (chain bc4) (Some ''M'') = 100
       \<and> getBalanceOfAddress bc2 (Some ''A'') = Fin 50
       \<and> getBalanceOfAddress bc4 (Some ''A'') = Fin 20
       \<and> getBalanceOfAddress bc4 (Some ''B'') = Fin 30)"
proof -
  define H :: digest where "H = (\<lambda>i p t m n k. ''00ab'')"
  define MR :: "string list \<Rightarrow> string" where "MR = (\<lambda>ids. ''m'')"
  define bc0 where "bc0 = Blockchain_new H MR 0 2 (Fin 50)"
  define bc1 where
    "bc1 = snd (addTransaction bc0 (Transaction_new ''t1'' 1 None (Some ''A'') (Fin 50) ''reward''))"
  define bc2 where "bc2 = snd (minePendingTransactions H MR ''t2'' 2 3 bc1 (Some ''M''))"
  define bc3 where "bc3 = snd (addTransaction bc2
                     (Transaction_new ''t3'' 4 (Some ''A'') (Some ''B'') (Fin 30) ''regular''))"
  define bc4 where "bc4 = snd (minePendingTransactions H MR ''t4'' 5 6 bc3 (Some ''M''))"
  have x4: "concat (map transactions (chain bc4))
     = [Transaction_new ''t1'' 1 None (Some ''A'') (Fin 50) ''reward'',
        Transaction_new ''t2'' 2 None (Some ''M'') (Fin 50) ''reward'',
        Transaction_new ''t3'' 4 (Some ''A'') (Some ''B'') (Fin 30) ''regular'',
        Transaction_new ''t4'' 5 None (Some ''M'') (Fin 50) ''reward'']"
    unfolding bc4_def bc3_def bc2_def bc1_def bc0_def by (rule scenario_transactions)
  have safe: "safeIntegers (chain bc4) (Some ''M'')"
    by (simp add: safeIntegers_def x4 involves_def Transaction_new_def isInteger_def valueOf_def)
  have total: "balanceSum valueOf (chain bc4) (Some ''M'') = 100"
    by (simp add: balanceSum_def x4 Transaction_new_def valueOf_def)
  have "safeIntegers (chain bc4) (Some ''M'')
       \<and> getBalanceOfAddress bc4 (Some ''M'') = Fin (balanceSum valueOf (chain bc4) (Some ''M''))
       \<and> balanceSum valueOf (chain bc4) (Some ''M'') = 100
       \<and> getBalanceOfAddress bc2 (Some ''A'') = Fin 50
       \<and> getBalanceOfAddress bc4 (Some ''A'') = Fin 20
       \<and> getBalanceOfAddress bc4 (Some ''B'') = Fin 30"
    using balance_exact_on_safe_integers [where bc = bc4 and p = "[]" and address = "Some ''M''"
        and A = "''A''" and B = "''B''" and miner = "Some ''M''" and H = H and MR = MR
        and now = 0 and d = 2 and reward = "Fin 50" and ?u1.0 = "''t1''" and ?n1.0 = 1
        and ?u2.0 = "''t2''" and ?n2.0 = 2 and ?n3.0 = 3 and ?u3.0 = "''t3''" and ?n4.0 = 4
        and ?u4.0 = "''t4''" and ?n5.0 = 5 and ?n6.0 = 6]
      safe total
    by (simp add: Let_def bc4_def bc3_def bc2_def bc1_def bc0_def)
  then show ?thesis
    unfolding Let_def bc4_def bc3_def bc2_def bc1_def bc0_def MR_def H_def .
qed

text \<open>
  Claim C7 as it is written, for every chain, fails on this one: on a new chain, rewards
  of \<open>2^53\<close> and of \<open>1\<close> to \<open>A\<close> are admitted and mined in one block. The sum of
  the claim is \<open>2^53 + 1\<close>; \<open>getBalanceOfAddress\<close> returns \<open>2^53\<close>.
\<close>

theorem balance_loses_credit_beyond_2_53:
  "(let H = (\<lambda>i p t m n k. ''00ab''); MR = (\<lambda>ids. ''m'');
        bc0 = Blockchain_new H MR 0 2 (Fin 50);
        bc1 = snd (addTransaction bc0
                     (Transaction_new ''t1'' 1 None (Some ''A'') (Fin 9007199254740992) ''reward''));
        bc2 = snd (addTransaction bc1 (Transaction_new ''t2'' 2 None (Some ''A'') (Fin 1) ''reward''));
        bc3 = snd (minePendingTransactions H MR ''t3'' 3 4 bc2 (Some ''M''))
    in concat (map transactions (chain bc3))
         = [Transaction_new ''t1'' 1 None (Some ''A'') (Fin 9007199254740992) ''reward'',
            Transaction_new ''t2'' 2 None (Some ''A'') (Fin 1) ''reward'',
            Transaction_new ''t3'' 3 None (Some ''M'') (Fin 50) ''reward'']
       \<and> balanceSum valueOf (chain bc3) (Some ''A'') = 9007199254740993
       \<and> getBalanceOfAddress bc3 (Some ''A'') = Fin 9007199254740992
       \<and> getBalanceOfAddress bc3 (Some ''A'') \<noteq> Fin (balanceSum valueOf (chain bc3) (Some ''A'')))"
proof -
  define H :: digest where "H = (\<lambda>i p t m n k. ''00ab'')"
  define MR :: "string list \<Rightarrow> string" where "MR = (\<lambda>ids. ''m'')"
  define t1 where "t1 = Transaction_new ''t1'' 1 None (Some ''A'') (Fin 9007199254740992) ''reward''"
  define t2 where "t2 = Transaction_new ''t2'' 2 None (Some ''A'') (Fin 1) ''reward''"
  define r where "r = Transaction_new ''t3'' 3 None (Some ''M'') (Fin 50) ''reward''"
  define bc0 where "bc0 = Blockchain_new H MR 0 2 (Fin 50)"
  define bc1 where "bc1 = snd (addTransaction bc0 t1)"
  define bc2 where "bc2 = snd (addTransaction bc1 t2)"
  define bc3 where "bc3 = snd (minePendingTransactions H MR ''t3'' 3 4 bc2 (Some ''M''))"
  have t: "toAddress t1 = Some ''A''" "fromAddress t1 = None" "amount t1 = Fin 9007199254740992"
      "tx_type t1 = ''reward''"
      "toAddress t2 = Some ''A''" "fromAddress t2 = None" "amount t2 = Fin 1"
      "tx_type t2 = ''reward''"
      "toAddress r = Some ''M''" "fromAddress r = None" "amount r = Fin 50"
    by (simp_all add: t1_def t2_def r_def Transaction_new_def)
  have c0: "chain bc0 \<noteq> []" "pendingTransactions bc0 = []"
      "concat (map transactions (chain bc0)) = []" "miningReward bc0 = Fin 50"
    by (simp_all add: bc0_def new_transactions) (simp_all add: Blockchain_new_def)
  have c1: "chain bc1 \<noteq> []" "concat (map transactions (chain bc1)) = []"
      "miningReward bc1 = Fin 50"
    by (simp_all add: bc1_def addTransaction_chain addTransaction_config c0)
  have p1: "pendingTransactions bc1 = [t1]"
    unfolding bc1_def
    by (subst addTransaction_pending_ok) (simp_all add: t falsy_def c0 double_order)
  have c2: "chain bc2 \<noteq> []" "concat (map transactions (chain bc2)) = []"
      "miningReward bc2 = Fin 50"
    by (simp_all add: bc2_def addTransaction_chain addTransaction_config c1)
  have p2: "pendingTransactions bc2 = [t1, t2]"
    unfolding bc2_def
    by (subst addTransaction_pending_ok) (simp_all add: t falsy_def p1 double_order)
  have x3: "concat (map transactions (chain bc3)) = [t1, t2, r]"
    by (simp add: bc3_def mined_transactions c2 p2 r_def)
  have total: "balanceSum valueOf (chain bc3) (Some ''A'') = 9007199254740993"
    by (simp add: balanceSum_def x3 t valueOf_def)
  have code: "getBalanceOfAddress bc3 (Some ''A'') = Fin 9007199254740992"
    by (simp add: getBalanceOfAddress_fold x3 balanceStep_def Let_def t zero_double_def
        double_plus round64_examples round64_above_pow53)
  have "concat (map transactions (chain bc3)) = [t1, t2, r]
       \<and> balanceSum valueOf (chain bc3) (Some ''A'') = 9007199254740993
       \<and> getBalanceOfAddress bc3 (Some ''A'') = Fin 9007199254740992
       \<and> getBalanceOfAddress bc3 (Some ''A'') \<noteq> Fin (balanceSum valueOf (chain bc3) (Some ''A''))"
    by (simp add: x3 total code)
  then show ?thesis
    unfolding Let_def bc3_def bc2_def bc1_def bc0_def r_def t2_def t1_def MR_def H_def .
qed
section \<open>Appending mined blocks\<close>





section \<open>Admission of transactions\<close>

lemma addTransaction_rejects:
  assumes "falsy (toAddress t) \<or> amount t \<le> 0
     \<or> (tx_type t \<noteq> ''reward''
         \<and> (falsy (fromAddress t) \<or> getBalanceOfAddress bc (fromAddress t) < amount t))"
  shows "\<exists>e. isInvalidTransaction e \<and> addTransaction bc t = (Inl e, bc)"
proof -
  consider (a) "falsy (fromAddress t) \<and> tx_type t \<noteq> ''reward''"
    | (b) "\<not> (falsy (fromAddress t) \<and> tx_type t \<noteq> ''reward'')" "falsy (toAddress t)"
    | (c) "\<not> (falsy (fromAddress t) \<and> tx_type t \<noteq> ''reward'')" "\<not> falsy (toAddress t)"
          "amount t \<le> 0"
    | (d) "\<not> (falsy (fromAddress t) \<and> tx_type t \<noteq> ''reward'')" "\<not> falsy (toAddress t)"
          "\<not> amount t \<le> 0" "tx_type t \<noteq> ''reward''"
          "getBalanceOfAddress bc (fromAddress t) < amount t"
    using assms by blast
  then show ?thesis
  proof cases
    case a
    then have "addTransaction bc t = (Inl NoSenderAndNotReward, bc)"
      by (simp add: addTransaction_def)
    then show ?thesis by simp
  next
    case b
    then have "addTransaction bc t = (Inl NoRecipient, bc)"
      by (simp add: addTransaction_def)
    then show ?thesis by simp
  next
    case c
    then have "addTransaction bc t = (Inl AmountNotPositive, bc)"
      by (simp add: addTransaction_def)
    then show ?thesis by simp
  next
    case d
    then have "addTransaction bc t = (Inl InsufficientBalance, bc)"
      by (auto simp add: addTransaction_def)
    then show ?thesis by simp
  qed
qed

lemma addTransaction_admits:
  assumes "\<not> (falsy (toAddress t) \<or> amount t \<le> 0
     \<or> (tx_type t \<noteq> ''reward''
         \<and> (falsy (fromAddress t) \<or> getBalanceOfAddress bc (fromAddress t) < amount t)))"
  shows "addTransaction bc t =
     (case getLatestBlock bc of None \<Rightarrow> Inl TypeError | Some latest \<Rightarrow> Inr (index latest + 1),
      bc\<lparr>pendingTransactions := pendingTransactions bc @ [t],
         emitted := emitted bc @ [TransactionAdded t]\<rparr>)"
  using assms
  by (auto simp add: addTransaction_def Let_def getLatestBlock_def split: option.split)

text \<open>
  Claim C6. \<open>addTransaction\<close> rejects, with one of the four admission errors and the
  state as it was, exactly when the recipient is absent (\<open>null\<close> or empty), the amount
  is not positive, or the transaction is not a reward and its sender is absent or holds
  less on the chain than the amount. In every other case the transaction is appended
  at the end of the pending list, the chain is as before, no admission error comes
  back, and on a chain with a tip the result is the tip's index plus one.
\<close>

theorem addTransaction_admission:
  "(if falsy (toAddress t) \<or> amount t \<le> 0
       \<or> (tx_type t \<noteq> ''reward''
           \<and> (falsy (fromAddress t) \<or> getBalanceOfAddress bc (fromAddress t) < amount t))
    then (\<exists>e. isInvalidTransaction e \<and> addTransaction bc t = (Inl e, bc))
    else pendingTransactions (snd (addTransaction bc t)) = pendingTransactions bc @ [t]
         \<and> chain (snd (addTransaction bc t)) = chain bc
         \<and> (\<forall>e. fst (addTransaction bc t) = Inl e \<longrightarrow> \<not> isInvalidTransaction e)
         \<and> (chain bc \<noteq> [] \<longrightarrow> fst (addTransaction bc t) = Inr (index (last (chain bc)) + 1)))"
proof (cases "falsy (toAddress t) \<or> amount t \<le> 0
       \<or> (tx_type t \<noteq> ''reward''
           \<and> (falsy (fromAddress t) \<or> getBalanceOfAddress bc (fromAddress t) < amount t))")
  case True
  then show ?thesis using addTransaction_rejects [OF True] by simp
next
  case False
  show ?thesis
    using False
    by (simp add: addTransaction_admits [OF False] getLatestBlock_def last_conv_nth
        split: option.split)
qed

text \<open>A chain of two blocks on which an address holds 50.\<close>

lemma funded_chain:
  assumes "A \<noteq> []" and "miner \<noteq> Some A"
  shows "chain (snd (minePendingTransactions H MR u2 n2 n3
            (snd (addTransaction (Blockchain_new H MR now d r)
                    (Transaction_new u1 n1 None (Some A) (50 :: int) ''reward''))) miner)) \<noteq> []"
    and "index (last (chain (snd (minePendingTransactions H MR u2 n2 n3
            (snd (addTransaction (Blockchain_new H MR now d r)
                    (Transaction_new u1 n1 None (Some A) (50 :: int) ''reward''))) miner)))) = 1"
    and "pendingTransactions (snd (minePendingTransactions H MR u2 n2 n3
            (snd (addTransaction (Blockchain_new H MR now d r)
                    (Transaction_new u1 n1 None (Some A) (50 :: int) ''reward''))) miner)) = []"
    and "getBalanceOfAddress (snd (minePendingTransactions H MR u2 n2 n3
            (snd (addTransaction (Blockchain_new H MR now d r)
                    (Transaction_new u1 n1 None (Some A) (50 :: int) ''reward''))) miner)) (Some A) = 50"
proof -
  define bc1 where "bc1 = snd (addTransaction (Blockchain_new H MR now d r)
                    (Transaction_new u1 n1 None (Some A) (50 :: int) ''reward''))"
  have c1: "chain bc1 = [createGenesisBlock H MR now]"
    by (simp add: bc1_def addTransaction_chain Blockchain_new_def)
  then have ne: "chain bc1 \<noteq> []" by simp
  have p1: "pendingTransactions bc1 = [Transaction_new u1 n1 None (Some A) (50 :: int) ''reward'']"
    unfolding bc1_def using assms(1)
    by (subst addTransaction_reward_pending) (simp_all add: falsy_def Blockchain_new_def)
  have a1: "getBalanceOfAddress bc1 (Some A) = 0"
    by (simp add: getBalanceOfAddress_balanceSum c1 balanceSum_genesis)
  show "chain (snd (minePendingTransactions H MR u2 n2 n3
            (snd (addTransaction (Blockchain_new H MR now d r)
                    (Transaction_new u1 n1 None (Some A) (50 :: int) ''reward''))) miner)) \<noteq> []"
    using ne by (simp add: bc1_def [symmetric] mined_state)
  show "index (last (chain (snd (minePendingTransactions H MR u2 n2 n3
            (snd (addTransaction (Blockchain_new H MR now d r)
                    (Transaction_new u1 n1 None (Some A) (50 :: int) ''reward''))) miner)))) = 1"
    using ne
    by (simp add: bc1_def [symmetric] mined_chain mineBlock_keeps Block_new_fields c1
        createGenesisBlock_def)
  show "pendingTransactions (snd (minePendingTransactions H MR u2 n2 n3
            (snd (addTransaction (Blockchain_new H MR now d r)
                    (Transaction_new u1 n1 None (Some A) (50 :: int) ''reward''))) miner)) = []"
    using ne by (simp add: bc1_def [symmetric] mined_state)
  show "getBalanceOfAddress (snd (minePendingTransactions H MR u2 n2 n3
            (snd (addTransaction (Blockchain_new H MR now d r)
                    (Transaction_new u1 n1 None (Some A) (50 :: int) ''reward''))) miner)) (Some A) = 50"
    unfolding bc1_def [symmetric] using ne assms
    by (simp add: mined_balance p1 a1 Transaction_new_def)
qed

theorem addTransaction_admission_witness:
  "(let H = (\<lambda>i p t m n k. ''00ab''); MR = (\<lambda>ids. ''m'');
        bc = snd (minePendingTransactions H MR ''t2'' 2 3
               (snd (addTransaction (Blockchain_new H MR 0 2 (50 :: int))
                       (Transaction_new ''t1'' 1 None (Some ''A'') (50 :: int) ''reward''))) (Some ''M''));
        good = Transaction_new ''t3'' 4 (Some ''A'') (Some ''B'') (30 :: int) ''regular'';
        bad = Transaction_new ''t4'' 5 (Some ''A'') (Some ''B'') (80 :: int) ''regular''
    in pendingTransactions (snd (addTransaction bc good)) = [good]
       \<and> fst (addTransaction bc good) = Inr 2
       \<and> (\<exists>e. isInvalidTransaction e \<and> addTransaction bc bad = (Inl e, bc)))"
proof -
  define H :: digest where "H = (\<lambda>i p t m n k. ''00ab'')"
  define MR :: "string list \<Rightarrow> string" where "MR = (\<lambda>ids. ''m'')"
  define bc where "bc = snd (minePendingTransactions H MR ''t2'' 2 3
               (snd (addTransaction (Blockchain_new H MR 0 2 (50 :: int))
                       (Transaction_new ''t1'' 1 None (Some ''A'') (50 :: int) ''reward''))) (Some ''M''))"
  define good where "good = Transaction_new ''t3'' 4 (Some ''A'') (Some ''B'') (30 :: int) ''regular''"
  define bad where "bad = Transaction_new ''t4'' 5 (Some ''A'') (Some ''B'') (80 :: int) ''regular''"
  have bc: "chain bc \<noteq> []" "index (last (chain bc)) = 1" "pendingTransactions bc = []"
      "getBalanceOfAddress bc (Some ''A'') = 50"
    unfolding bc_def by (rule funded_chain; simp)+
  have "pendingTransactions (snd (addTransaction bc good)) = [good]
       \<and> fst (addTransaction bc good) = Inr 2
       \<and> (\<exists>e. isInvalidTransaction e \<and> addTransaction bc bad = (Inl e, bc))"
    using addTransaction_admission [of good bc] addTransaction_admission [of bad bc] bc
    by (simp add: good_def bad_def Transaction_new_def falsy_def)
  then show ?thesis
    unfolding Let_def bad_def good_def bc_def MR_def H_def .
qed

text \<open>
  Claim C5 says that a transfer whose signature is missing or does not verify is
  rejected by \<open>addTransaction\<close>. The code never reads the signature there (a
  transaction carries no public key to check it against). On a chain where \<open>A\<close>
  holds 50, a transfer of 30 from \<open>A\<close> to \<open>B\<close> is admitted with no signature
  (where \<open>Transaction.isValid\<close> throws) and with a signature that the check refuses.
\<close>

theorem addTransaction_admits_unsigned:
  "(let H = (\<lambda>i p t m n k. ''00ab''); MR = (\<lambda>ids. ''m'');
        bc = snd (minePendingTransactions H MR ''t2'' 2 3
               (snd (addTransaction (Blockchain_new H MR 0 2 (50 :: int))
                       (Transaction_new ''t1'' 1 None (Some ''A'') (50 :: int) ''reward''))) (Some ''M''));
        unsigned = Transaction_new ''t3'' 4 (Some ''A'') (Some ''B'') (30 :: int) ''regular''
    in tx_type unsigned = ''regular''
       \<and> signature unsigned = None
       \<and> Transaction_isValid (\<lambda>t. ''h'') (\<lambda>h s k. True) unsigned ''key'' = Inl NoSignature
       \<and> fst (addTransaction bc unsigned) = Inr 2
       \<and> pendingTransactions (snd (addTransaction bc unsigned)) = [unsigned]
       \<and> Transaction_isValid (\<lambda>t. ''h'') (\<lambda>h s k. False)
             (unsigned\<lparr>signature := Some ''bogus''\<rparr>) ''key'' = Inr False
       \<and> fst (addTransaction bc (unsigned\<lparr>signature := Some ''bogus''\<rparr>)) = Inr 2
       \<and> pendingTransactions (snd (addTransaction bc (unsigned\<lparr>signature := Some ''bogus''\<rparr>)))
           = [unsigned\<lparr>signature := Some ''bogus''\<rparr>])"
proof -
  define H :: digest where "H = (\<lambda>i p t m n k. ''00ab'')"
  define MR :: "string list \<Rightarrow> string" where "MR = (\<lambda>ids. ''m'')"
  define bc where "bc = snd (minePendingTransactions H MR ''t2'' 2 3
               (snd (addTransaction (Blockchain_new H MR 0 2 (50 :: int))
                       (Transaction_new ''t1'' 1 None (Some ''A'') (50 :: int) ''reward''))) (Some ''M''))"
  define unsigned where
    "unsigned = Transaction_new ''t3'' 4 (Some ''A'') (Some ''B'') (30 :: int) ''regular''"
  have bc: "chain bc \<noteq> []" "index (last (chain bc)) = 1" "pendingTransactions bc = []"
      "getBalanceOfAddress bc (Some ''A'') = 50"
    unfolding bc_def by (rule funded_chain; simp)+
  have ok: "\<not> (falsy (toAddress unsigned) \<or> amount unsigned \<le> 0
     \<or> (tx_type unsigned \<noteq> ''reward''
         \<and> (falsy (fromAddress unsigned)
             \<or> getBalanceOfAddress bc (fromAddress unsigned) < amount unsigned)))"
    by (simp add: unsigned_def Transaction_new_def falsy_def bc)
  have ok': "\<not> (falsy (toAddress (unsigned\<lparr>signature := Some ''bogus''\<rparr>))
     \<or> amount (unsigned\<lparr>signature := Some ''bogus''\<rparr>) \<le> 0
     \<or> (tx_type (unsigned\<lparr>signature := Some ''bogus''\<rparr>) \<noteq> ''reward''
         \<and> (falsy (fromAddress (unsigned\<lparr>signature := Some ''bogus''\<rparr>))
             \<or> getBalanceOfAddress bc (fromAddress (unsigned\<lparr>signature := Some ''bogus''\<rparr>))
                 < amount (unsigned\<lparr>signature := Some ''bogus''\<rparr>))))"
    using ok by simp
  have "tx_type unsigned = ''regular''
       \<and> signature unsigned = None
       \<and> Transaction_isValid (\<lambda>t. ''h'') (\<lambda>h s k. True) unsigned ''key'' = Inl NoSignature
       \<and> fst (addTransaction bc unsigned) = Inr 2
       \<and> pendingTransactions (snd (addTransaction bc unsigned)) = [unsigned]
       \<and> Transaction_isValid (\<lambda>t. ''h'') (\<lambda>h s k. False)
             (unsigned\<lparr>signature := Some ''bogus''\<rparr>) ''key'' = Inr False
       \<and> fst (addTransaction bc (unsigned\<lparr>signature := Some ''bogus''\<rparr>)) = Inr 2
       \<and> pendingTransactions (snd (addTransaction bc (unsigned\<lparr>signature := Some ''bogus''\<rparr>)))
           = [unsigned\<lparr>signature := Some ''bogus''\<rparr>]"
    using bc
    by (simp add: addTransaction_admits [OF ok] addTransaction_admits [OF ok']
        getLatestBlock_last)
      (simp add: unsigned_def Transaction_new_def Transaction_isValid_def falsy_def)
  then show ?thesis
    unfolding Let_def unsigned_def bc_def MR_def H_def .
qed

text \<open>
  Claim C5 as amended. The signature plays no part in admission: a transaction with
  any other signature, or none, is rejected exactly when the transaction itself is,
  with the same outcome, and is appended to the pending list otherwise.
\<close>

theorem addTransaction_ignores_signature:
  "fst (addTransaction bc (t\<lparr>signature := sg\<rparr>)) = fst (addTransaction bc t)
   \<and> pendingTransactions (snd (addTransaction bc (t\<lparr>signature := sg\<rparr>)))
       = (if length (pendingTransactions (snd (addTransaction bc t)))
               = length (pendingTransactions bc)
          then pendingTransactions bc
          else pendingTransactions bc @ [t\<lparr>signature := sg\<rparr>])"
  by (simp add: addTransaction_def Let_def getLatestBlock_def split: option.split)

section \<open>Transactions from peers\<close>

lemma Transaction_fromJSON_id: "tx_id (Transaction_fromJSON uuid now data) = json_id data"
  by (simp add: Transaction_fromJSON_def Transaction_new_def Let_def)

lemma Transaction_toJSON_fromJSON:
  "Transaction_toJSON (Transaction_fromJSON uuid now data) = data"
  by (simp add: Transaction_fromJSON_def Transaction_toJSON_def Transaction_new_def Let_def)

text \<open>
  The body of the \<open>try\<close>, had the module bound \<open>Transaction\<close> to the class: a
  transaction whose id is not pending is appended to the pending list and broadcast
  whatever its fields are, and \<open>addTransaction\<close> is not called.
\<close>

lemma handleNewTransactionTry_bound:
  "handleNewTransactionTry (Some Transaction_fromJSON) uuid now node data
     = Inr (if list_ex (\<lambda>tx. tx_id tx = json_id data) (pendingTransactions (node_blockchain node))
            then node
            else node\<lparr>node_blockchain := (node_blockchain node)
                        \<lparr>pendingTransactions := pendingTransactions (node_blockchain node)
                            @ [Transaction_fromJSON uuid now data]\<rparr>,
                      broadcast := broadcast node @ [NEW_TRANSACTION data]\<rparr>)"
  by (simp add: handleNewTransactionTry_def Let_def Transaction_fromJSON_id
      broadcastTransaction_def Transaction_toJSON_fromJSON)

text \<open>
  Claim C4 says that a transaction from a peer goes through the validation of
  \<open>addTransaction\<close> before it is added to the mempool and re-broadcast. In the
  module as it is, \<open>handleNewTransaction\<close> adds and broadcasts nothing at all: its
  first statement evaluates the unbound identifier \<open>Transaction\<close>, the
  \<open>ReferenceError\<close> is caught and logged, and the node is as before, for every
  message. The last part evaluates it on a chain where \<open>A\<close> holds 50 and the peer
  sends a signed transfer of 30 from \<open>A\<close> to \<open>B\<close>: \<open>addTransaction\<close> admits this
  transaction, the handler drops it.
\<close>

theorem handleNewTransaction_drops_valid_transaction:
  "handleNewTransactionTry p2pNodeModule_Transaction uuid now node data = Inl ReferenceError
   \<and> handleNewTransaction uuid now node data = node
   \<and> (let bc = snd (minePendingTransactions H MR ''t2'' 2 3
                 (snd (addTransaction (Blockchain_new H MR 0 2 (50 :: int))
                         (Transaction_new ''t1'' 1 None (Some ''A'') (50 :: int) ''reward'')))
                 (Some ''M''));
            peer = \<lparr>node_blockchain = bc, broadcast = []\<rparr>;
            good = \<lparr>json_id = ''t3'', json_fromAddress = Some ''A'', json_toAddress = Some ''B'',
                    json_amount = 30, json_timestamp = 4, json_type = ''regular'',
                    json_signature = Some ''sig''\<rparr>;
            t = Transaction_fromJSON uuid now good
        in pendingTransactions (node_blockchain (handleNewTransaction uuid now peer good)) = []
           \<and> broadcast (handleNewTransaction uuid now peer good) = []
           \<and> getBalanceOfAddress bc (fromAddress t) = 50 \<and> amount t = 30
           \<and> toAddress t = Some ''B'' \<and> signature t = Some ''sig''
           \<and> addTransaction bc t
               = (Inr 2, bc\<lparr>pendingTransactions := [t],
                            emitted := emitted bc @ [TransactionAdded t]\<rparr>))"
proof -
  have thrown: "handleNewTransactionTry p2pNodeModule_Transaction uuid now node data
      = Inl ReferenceError" for node :: "'a p2pNode" and data
    by (simp add: handleNewTransactionTry_def p2pNodeModule_Transaction_def)
  have general: "handleNewTransaction uuid now node data = node"
    for node :: "'a p2pNode" and data
    by (simp add: handleNewTransaction_def handleNewTransactionTry_def
        p2pNodeModule_Transaction_def)
  have drops: "handleNewTransaction uuid now node data = node"
    for node :: "int p2pNode" and data
    by (simp add: handleNewTransaction_def handleNewTransactionTry_def
        p2pNodeModule_Transaction_def)
  define bc where "bc = snd (minePendingTransactions H MR ''t2'' 2 3
                 (snd (addTransaction (Blockchain_new H MR 0 2 (50 :: int))
                         (Transaction_new ''t1'' 1 None (Some ''A'') (50 :: int) ''reward'')))
                 (Some ''M''))"
  define peer where "peer = \<lparr>node_blockchain = bc, broadcast = []\<rparr>"
  define good where
    "good = \<lparr>json_id = ''t3'', json_fromAddress = Some ''A'', json_toAddress = Some ''B'',
                    json_amount = (30 :: int), json_timestamp = 4, json_type = ''regular'',
                    json_signature = Some ''sig''\<rparr>"
  define t where "t = Transaction_fromJSON uuid now good"
  have bc: "chain bc \<noteq> []" "index (last (chain bc)) = 1" "pendingTransactions bc = []"
      "getBalanceOfAddress bc (Some ''A'') = 50"
    unfolding bc_def by (rule funded_chain; simp)+
  have t: "toAddress t = Some ''B''" "amount t = 30" "tx_type t = ''regular''"
      "fromAddress t = Some ''A''" "signature t = Some ''sig''"
    by (simp_all add: t_def good_def Transaction_fromJSON_def Transaction_new_def Let_def)
  have adm: "addTransaction bc t
      = (Inr 2, bc\<lparr>pendingTransactions := [t], emitted := emitted bc @ [TransactionAdded t]\<rparr>)"
    using bc by (simp add: addTransaction_def t falsy_def Let_def getLatestBlock_def last_conv_nth)
  have "pendingTransactions (node_blockchain (handleNewTransaction uuid now peer good)) = []
           \<and> broadcast (handleNewTransaction uuid now peer good) = []
           \<and> getBalanceOfAddress bc (fromAddress t) = 50 \<and> amount t = 30
           \<and> toAddress t = Some ''B'' \<and> signature t = Some ''sig''
           \<and> addTransaction bc t
               = (Inr 2, bc\<lparr>pendingTransactions := [t],
                            emitted := emitted bc @ [TransactionAdded t]\<rparr>)"
    by (simp add: drops t bc adm) (simp add: peer_def bc)
  then have "let bc = snd (minePendingTransactions H MR ''t2'' 2 3
                 (snd (addTransaction (Blockchain_new H MR 0 2 (50 :: int))
                         (Transaction_new ''t1'' 1 None (Some ''A'') (50 :: int) ''reward'')))
                 (Some ''M''));
            peer = \<lparr>node_blockchain = bc, broadcast = []\<rparr>;
            good = \<lparr>json_id = ''t3'', json_fromAddress = Some ''A'', json_toAddress = Some ''B'',
                    json_amount = 30, json_timestamp = 4, json_type = ''regular'',
                    json_signature = Some ''sig''\<rparr>;
            t = Transaction_fromJSON uuid now good
        in pendingTransactions (node_blockchain (handleNewTransaction uuid now peer good)) = []
           \<and> broadcast (handleNewTransaction uuid now peer good) = []
           \<and> getBalanceOfAddress bc (fromAddress t) = 50 \<and> amount t = 30
           \<and> toAddress t = Some ''B'' \<and> signature t = Some ''sig''
           \<and> addTransaction bc t
               = (Inr 2, bc\<lparr>pendingTransactions := [t],
                            emitted := emitted bc @ [TransactionAdded t]\<rparr>)"
    unfolding Let_def t_def good_def peer_def bc_def .
  with thrown general show ?thesis by blast
qed

end
